(* ===== verification/JS_Prelude.thy ===== *)
theory JS_Prelude
  imports Main "HOL-Library.Word"
begin

text \<open>
  The JavaScript values and built-in operations that \<open>src/src/index.ts\<close> relies on.
  A JavaScript string is a sequence of UTF-16 code units, so it is modelled as a list of
  16-bit words (\<open>js_string\<close>); an ASCII literal of the source is turned into such a list
  by \<open>js_lit\<close>. The built-ins modelled here are those the program calls on strings and
  arrays: \<open>String.prototype.trim\<close> (\<open>js_trim\<close>, with the WhiteSpace and LineTerminator
  code units of ECMAScript), the nullish coalescing operator \<open>??\<close> on an optional value
  (\<open>js_coalesce\<close>), the truthiness of an optional string in a condition
  (\<open>js_truthy_str\<close>), and \<open>Array.prototype.includes\<close> on a string array
  (\<open>js_includes\<close>). The lemmas are the facts on them that the component theories share.
\<close>

type_synonym code_unit = "16 word"
type_synonym js_string = "code_unit list"

named_theorems js_lit_simps \<open>equations that compute ASCII literals as code units\<close>

definition js_lit :: "string \<Rightarrow> js_string" where
  "js_lit s = map (\<lambda>c. of_nat (of_char c)) s"

subsection \<open>White space and trim\<close>

text \<open>ECMAScript WhiteSpace (TAB, VT, FF, SP, NBSP, ZWNBSP and the category Zs) and
  LineTerminator (LF, CR, LS, PS): the code units \<open>trim\<close> removes.\<close>

definition is_js_whitespace :: "code_unit \<Rightarrow> bool" where
  "is_js_whitespace c \<longleftrightarrow>
     c = 0x09 \<or> c = 0x0A \<or> c = 0x0B \<or> c = 0x0C \<or> c = 0x0D \<or> c = 0x20 \<or>
     c = 0xA0 \<or> c = 0x1680 \<or> (0x2000 \<le> c \<and> c \<le> 0x200A) \<or>
     c = 0x2028 \<or> c = 0x2029 \<or> c = 0x202F \<or> c = 0x205F \<or> c = 0x3000 \<or> c = 0xFEFF"

text \<open>\<open>String.prototype.trim\<close>: the string with leading and trailing white space removed.\<close>

definition js_trim :: "js_string \<Rightarrow> js_string" where
  "js_trim s = rev (dropWhile is_js_whitespace (rev (dropWhile is_js_whitespace s)))"

subsection \<open>Optional values\<close>

text \<open>\<open>x ?? d\<close>: the value of \<open>x\<close> unless it is \<open>undefined\<close> or \<open>null\<close>, both modelled
  as \<open>None\<close>.\<close>

definition js_coalesce :: "'a option \<Rightarrow> 'a \<Rightarrow> 'a" where
  "js_coalesce x d = (case x of None \<Rightarrow> d | Some v \<Rightarrow> v)"

text \<open>The truthiness of an optional string in \<open>if (x && ...)\<close>: \<open>undefined\<close>,
  \<open>null\<close> and the empty string are falsy.\<close>

definition js_truthy_str :: "js_string option \<Rightarrow> bool" where
  "js_truthy_str x = (case x of None \<Rightarrow> False | Some s \<Rightarrow> s \<noteq> [])"

subsection \<open>Array includes\<close>

text \<open>\<open>Array.prototype.includes\<close> scans the array from index 0 and compares with
  SameValueZero, which on two strings is equality of their code units.\<close>

primrec js_includes :: "js_string list \<Rightarrow> js_string \<Rightarrow> bool" where
  "js_includes [] x = False"
| "js_includes (y # ys) x = (y = x \<or> js_includes ys x)"

subsection \<open>Shared lemmas\<close>

lemma js_includes_iff [simp]: "js_includes xs x \<longleftrightarrow> x \<in> set xs"
  by (induction xs) auto

lemma js_coalesce_simps [simp]:
  "js_coalesce None d = d" "js_coalesce (Some v) d = v"
  by (simp_all add: js_coalesce_def)

lemma js_truthy_str_simps [simp]:
  "\<not> js_truthy_str None" "js_truthy_str (Some s) \<longleftrightarrow> s \<noteq> []"
  by (simp_all add: js_truthy_str_def)

lemma js_lit_Nil [simp, js_lit_simps]: "js_lit [] = []"
  and js_lit_Cons [js_lit_simps]: "js_lit (c # s) = of_nat (of_char c) # js_lit s"
  and js_lit_append [simp]: "js_lit (s @ t) = js_lit s @ js_lit t"
  and length_js_lit [simp]: "length (js_lit s) = length s"
  by (simp_all add: js_lit_def)

lemma js_lit_eq_Nil_iff [simp]: "js_lit s = [] \<longleftrightarrow> s = []"
  and Nil_eq_js_lit_iff [simp]: "[] = js_lit s \<longleftrightarrow> s = []"
  by (auto simp: js_lit_def)

lemma last_dropWhile:
  "dropWhile P xs \<noteq> [] \<Longrightarrow> last (dropWhile P xs) = last xs"
  by (induction xs) auto

lemma dropWhile_hd_stop:
  "xs \<noteq> [] \<Longrightarrow> \<not> P (hd xs) \<Longrightarrow> dropWhile P xs = xs"
  by (cases xs) auto

text \<open>A string whose first and last code units are not white space.\<close>

definition js_trimmed :: "js_string \<Rightarrow> bool" where
  "js_trimmed s \<longleftrightarrow> s = [] \<or> (\<not> is_js_whitespace (hd s) \<and> \<not> is_js_whitespace (last s))"

lemma js_trim_trimmed: "js_trimmed (js_trim s)"
proof -
  let ?P = is_js_whitespace
  let ?d = "dropWhile ?P s"
  let ?e = "dropWhile ?P (rev ?d)"
  show ?thesis
  proof (cases "?e = []")
    case True
    then show ?thesis by (simp add: js_trimmed_def js_trim_def)
  next
    case False
    have d: "?d \<noteq> []"
    proof
      assume "?d = []"
      with False show False by simp
    qed
    have "\<not> ?P (hd ?e)"
      using False hd_dropWhile by blast
    moreover have "last ?e = hd ?d"
      using False d by (simp add: last_dropWhile last_rev)
    moreover have "\<not> ?P (hd ?d)"
      using d hd_dropWhile by blast
    ultimately show ?thesis
      using False by (simp add: js_trimmed_def js_trim_def hd_rev last_rev)
  qed
qed

lemma js_trim_padded:
  assumes "js_trimmed s"
    and "\<forall>c \<in> set pre. is_js_whitespace c" and "\<forall>c \<in> set post. is_js_whitespace c"
  shows "js_trim (pre @ s @ post) = s"
proof (cases "s = []")
  case True
  with assms show ?thesis
    by (auto simp: js_trim_def dest: set_dropWhileD)
next
  case False
  with assms(1) have h: "\<not> is_js_whitespace (hd s)" and l: "\<not> is_js_whitespace (last s)"
    by (auto simp: js_trimmed_def)
  have "dropWhile is_js_whitespace (pre @ s @ post) = s @ post"
    using assms(2) False h by (simp add: dropWhile_hd_stop)
  moreover have "dropWhile is_js_whitespace (rev post @ rev s) = rev s"
  proof -
    have "dropWhile is_js_whitespace (rev post @ rev s) = dropWhile is_js_whitespace (rev s)"
      by (rule dropWhile_append2) (use assms(3) in auto)
    also have "\<dots> = rev s"
      by (rule dropWhile_hd_stop) (simp_all add: False l hd_rev)
    finally show ?thesis .
  qed
  ultimately show ?thesis
    by (simp add: js_trim_def)
qed

lemma js_trim_id: "js_trimmed s \<Longrightarrow> js_trim s = s"
  using js_trim_padded [of s "[]" "[]"] by simp

lemma js_trim_idem [simp]: "js_trim (js_trim s) = js_trim s"
  by (rule js_trim_id [OF js_trim_trimmed])

end
