(* ===== verification/Json_Stringify.thy ===== *)
theory Json_Stringify
  imports JS_Prelude
begin

text \<open>
  \<open>JSON.stringify\<close> on the two kinds of value the program passes to it
  (\<open>src/src/index.ts\<close>, lines 68 and 69): a string (\<open>json_quote\<close>, ECMAScript's
  QuoteJSONString in its well-formed form, which escapes lone surrogates) and an array of
  strings without indentation (\<open>json_string_array\<close>, SerializeJSONArray). The built-in
  is not code of the repository; it is modelled from the ECMAScript specification.
  Beside them are decoders for the same grammar as \<open>JSON.parse\<close> reads it
  (\<open>json_parse_string\<close>, \<open>json_parse_string_array\<close>), each returning the
  unconsumed input, and the round-trip theorems: decoding an encoded value followed by any
  text gives the value back and exactly that text. They are what makes the payload of the
  prompt unambiguous.
\<close>

subsection \<open>Encoding\<close>

definition hex_digit :: "nat \<Rightarrow> code_unit" where
  "hex_digit d = (if d < 10 then of_nat (48 + d) else of_nat (87 + d))"

text \<open>UnicodeEscape: a backslash, \<open>u\<close> and four lowercase hexadecimal digits.\<close>

definition unicode_escape :: "code_unit \<Rightarrow> js_string" where
  "unicode_escape c =
     [0x5C, 0x75, hex_digit (unat c div 4096), hex_digit (unat c div 256 mod 16),
      hex_digit (unat c div 16 mod 16), hex_digit (unat c mod 16)]"

definition is_leading_surrogate :: "code_unit \<Rightarrow> bool" where
  "is_leading_surrogate c \<longleftrightarrow> 0xD800 \<le> c \<and> c \<le> 0xDBFF"

definition is_trailing_surrogate :: "code_unit \<Rightarrow> bool" where
  "is_trailing_surrogate c \<longleftrightarrow> 0xDC00 \<le> c \<and> c \<le> 0xDFFF"

text \<open>One code point made of a single code unit: the short escapes of Table 73, a
  UnicodeEscape for control characters and lone surrogates, the unit itself otherwise.\<close>

definition quote_code_unit :: "code_unit \<Rightarrow> js_string" where
  "quote_code_unit c =
     (if c = 0x08 then [0x5C, 0x62]
      else if c = 0x09 then [0x5C, 0x74]
      else if c = 0x0A then [0x5C, 0x6E]
      else if c = 0x0C then [0x5C, 0x66]
      else if c = 0x0D then [0x5C, 0x72]
      else if c = 0x22 then [0x5C, 0x22]
      else if c = 0x5C then [0x5C, 0x5C]
      else if c < 0x20 \<or> is_leading_surrogate c \<or> is_trailing_surrogate c
        then unicode_escape c
      else [c])"

text \<open>The loop of QuoteJSONString over StringToCodePoints: a leading surrogate followed
  by a trailing one is one code point and is copied; every other unit is one code point.\<close>

fun quote_units :: "js_string \<Rightarrow> js_string" where
  "quote_units [] = []"
| "quote_units [c] = quote_code_unit c"
| "quote_units (c # d # cs) =
     (if is_leading_surrogate c \<and> is_trailing_surrogate d then c # d # quote_units cs
      else quote_code_unit c @ quote_units (d # cs))"

definition json_quote :: "js_string \<Rightarrow> js_string" where
  "json_quote s = 0x22 # quote_units s @ [0x22]"

text \<open>SerializeJSONArray with an empty gap: \<open>[\<close>, the elements separated by \<open>,\<close>,
  \<open>]\<close>.\<close>

definition json_elements :: "js_string list \<Rightarrow> js_string" where
  "json_elements xs =
     (case xs of [] \<Rightarrow> [] | x # ys \<Rightarrow> json_quote x @ concat (map (\<lambda>y. 0x2C # json_quote y) ys))"

definition json_string_array :: "js_string list \<Rightarrow> js_string" where
  "json_string_array xs = 0x5B # json_elements xs @ [0x5D]"

subsection \<open>Decoding\<close>

definition hex_value :: "code_unit \<Rightarrow> nat option" where
  "hex_value h =
     (if 0x30 \<le> h \<and> h \<le> 0x39 then Some (unat h - 48)
      else if 0x61 \<le> h \<and> h \<le> 0x66 then Some (unat h - 87)
      else if 0x41 \<le> h \<and> h \<le> 0x46 then Some (unat h - 55)
      else None)"

definition hex4_value :: "code_unit \<Rightarrow> code_unit \<Rightarrow> code_unit \<Rightarrow> code_unit \<Rightarrow> code_unit option" where
  "hex4_value a b c d =
     (case (hex_value a, hex_value b, hex_value c, hex_value d) of
        (Some x, Some y, Some z, Some w) \<Rightarrow> Some (of_nat (((x * 16 + y) * 16 + z) * 16 + w))
      | _ \<Rightarrow> None)"

definition short_unescape :: "code_unit \<Rightarrow> code_unit option" where
  "short_unescape e =
     (if e = 0x22 then Some 0x22 else if e = 0x5C then Some 0x5C
      else if e = 0x2F then Some 0x2F else if e = 0x62 then Some 0x08
      else if e = 0x66 then Some 0x0C else if e = 0x6E then Some 0x0A
      else if e = 0x72 then Some 0x0D else if e = 0x74 then Some 0x09
      else None)"

definition cons_fst :: "'a \<Rightarrow> ('a list \<times> 'b) option \<Rightarrow> ('a list \<times> 'b) option" where
  "cons_fst x r = map_option (\<lambda>(v, rest). (x # v, rest)) r"

text \<open>The characters of a JSON string after its opening quote, up to and including the
  closing quote: the decoded string and the input after the closing quote.\<close>

fun parse_string_body :: "js_string \<Rightarrow> (js_string \<times> js_string) option" where
  "parse_string_body [] = None"
| "parse_string_body (c # cs) =
     (if c = 0x22 then Some ([], cs)
      else if c = 0x5C then
        (case cs of
           [] \<Rightarrow> None
         | e # cs' \<Rightarrow>
             (if e = 0x75 then
                (case cs' of
                   h1 # h2 # h3 # h4 # cs'' \<Rightarrow>
                     (case hex4_value h1 h2 h3 h4 of
                        None \<Rightarrow> None
                      | Some u \<Rightarrow> cons_fst u (parse_string_body cs''))
                 | _ \<Rightarrow> None)
              else
                (case short_unescape e of
                   None \<Rightarrow> None
                 | Some u \<Rightarrow> cons_fst u (parse_string_body cs'))))
      else if c < 0x20 then None
      else cons_fst c (parse_string_body cs))"

definition json_parse_string :: "js_string \<Rightarrow> (js_string \<times> js_string) option" where
  "json_parse_string s = (case s of c # cs \<Rightarrow> if c = 0x22 then parse_string_body cs else None | [] \<Rightarrow> None)"


lemma cons_fst_Some [simp]: "cons_fst x (Some (v, r)) = Some (x # v, r)"
  and cons_fst_None [simp]: "cons_fst x None = None"
  by (simp_all add: cons_fst_def)

lemma cons_fst_eq_Some:
  "cons_fst x p = Some (v, r) \<longleftrightarrow> (\<exists>v'. p = Some (v', r) \<and> v = x # v')"
  by (cases p) (auto simp: cons_fst_def)

lemma parse_string_body_shorter:
  "parse_string_body xs = Some (v, r) \<Longrightarrow> length r < length xs"
proof (induction xs arbitrary: v rule: parse_string_body.induct)
  case 1
  then show ?case by simp
next
  case (2 c cs)
  then show ?case
    by (fastforce simp: cons_fst_eq_Some split: if_splits list.splits option.splits)
qed

lemma json_parse_string_shorter:
  "json_parse_string xs = Some (v, r) \<Longrightarrow> length r < length xs"
  by (auto simp: json_parse_string_def dest: parse_string_body_shorter split: list.splits if_splits)

text \<open>After the first element of an array: \<open>]\<close> ends it, \<open>,\<close> and a string
  continue it.\<close>

function parse_elements_rest :: "js_string \<Rightarrow> (js_string list \<times> js_string) option" where
  "parse_elements_rest s =
     (case s of
        [] \<Rightarrow> None
      | c # cs \<Rightarrow>
          (if c = 0x5D then Some ([], cs)
           else if c = 0x2C then
             (case json_parse_string cs of
                None \<Rightarrow> None
              | Some (x, r) \<Rightarrow> cons_fst x (parse_elements_rest r))
           else None))"
  by pat_completeness auto
termination
  by (relation "measure length") (auto dest: json_parse_string_shorter)

declare parse_elements_rest.simps [simp del]

lemma parse_elements_rest_close [simp]: "parse_elements_rest (0x5D # r) = Some ([], r)"
  by (simp add: parse_elements_rest.simps)

lemma parse_elements_rest_comma [simp]:
  "parse_elements_rest (0x2C # cs) =
     (case json_parse_string cs of None \<Rightarrow> None | Some (x, r) \<Rightarrow> cons_fst x (parse_elements_rest r))"
  by (simp add: parse_elements_rest.simps)

definition json_parse_string_array :: "js_string \<Rightarrow> (js_string list \<times> js_string) option" where
  "json_parse_string_array s =
     (case s of
        c # cs \<Rightarrow>
          (if c \<noteq> 0x5B then None
           else
             (case cs of
                [] \<Rightarrow> None
              | d # ds \<Rightarrow>
                  (if d = 0x5D then Some ([], ds)
                   else
                     (case json_parse_string cs of
                        None \<Rightarrow> None
                      | Some (x, r) \<Rightarrow> cons_fst x (parse_elements_rest r)))))
      | [] \<Rightarrow> None)"

subsection \<open>Round trips\<close>

lemma unat_word_of_nat_16:
  "n < 65536 \<Longrightarrow> unat (word_of_nat n :: 16 word) = n"
  by (rule of_nat_inverse [OF refl]) simp

lemma unat_hex_digit:
  assumes "d < 16"
  shows "unat (hex_digit d) = (if d < 10 then 48 + d else 87 + d)"
proof (cases "d < 10")
  case True
  then have "hex_digit d = word_of_nat (48 + d)" by (simp only: hex_digit_def if_True)
  with True show ?thesis by (simp only: unat_word_of_nat_16) simp
next
  case False
  then have "hex_digit d = word_of_nat (87 + d)" by (simp only: hex_digit_def if_False)
  with False assms show ?thesis by (simp only: unat_word_of_nat_16) simp
qed

lemma hex_value_hex_digit:
  assumes "d < 16"
  shows "hex_value (hex_digit d) = Some d"
  using assms by (simp add: hex_value_def word_le_nat_alt unat_hex_digit)

lemma hex_digits_recombine:
  fixes n :: nat
  shows "((n div 4096 * 16 + n div 256 mod 16) * 16 + n div 16 mod 16) * 16 + n mod 16 = n"
proof -
  have a: "n div 4096 * 16 + n div 256 mod 16 = n div 256"
    using div_mult_mod_eq [of "n div 256" 16] by (simp add: div_mult2_eq [symmetric])
  have b: "n div 256 * 16 + n div 16 mod 16 = n div 16"
    using div_mult_mod_eq [of "n div 16" 16] by (simp add: div_mult2_eq [symmetric])
  show ?thesis by (simp add: a b)
qed

lemma hex4_value_unicode_escape:
  "hex4_value (hex_digit (unat c div 4096)) (hex_digit (unat c div 256 mod 16))
     (hex_digit (unat c div 16 mod 16)) (hex_digit (unat c mod 16)) = Some c"
proof -
  have "unat c < 65536" using unsigned_less [of c] by simp
  then have "unat c div 4096 < 16" by simp
  then have d1: "hex_value (hex_digit (unat c div 4096)) = Some (unat c div 4096)"
    by (rule hex_value_hex_digit)
  have d2: "hex_value (hex_digit (unat c div 256 mod 16)) = Some (unat c div 256 mod 16)"
    by (rule hex_value_hex_digit) simp
  have d3: "hex_value (hex_digit (unat c div 16 mod 16)) = Some (unat c div 16 mod 16)"
    by (rule hex_value_hex_digit) simp
  have d4: "hex_value (hex_digit (unat c mod 16)) = Some (unat c mod 16)"
    by (rule hex_value_hex_digit) simp
  show ?thesis
    by (simp only: hex4_value_def d1 d2 d3 d4 option.case prod.case hex_digits_recombine) simp
qed

lemma surrogate_plain:
  "is_leading_surrogate c \<or> is_trailing_surrogate c \<Longrightarrow> c \<noteq> 0x22 \<and> c \<noteq> 0x5C \<and> \<not> c < 0x20"
  by (auto simp: is_leading_surrogate_def is_trailing_surrogate_def word_le_nat_alt word_less_nat_alt)

lemma parse_quote_code_unit:
  "parse_string_body (quote_code_unit c @ rest) = cons_fst c (parse_string_body rest)"
  by (simp add: quote_code_unit_def unicode_escape_def short_unescape_def hex4_value_unicode_escape
      surrogate_plain)

lemma parse_quote_units:
  "parse_string_body (quote_units s @ 0x22 # r) = Some (s, r)"
  by (induction s rule: quote_units.induct)
    (auto simp: parse_quote_code_unit cons_fst_def surrogate_plain)

lemma json_parse_string_quote [simp]:
  "json_parse_string (json_quote s @ r) = Some (s, r)"
  by (simp add: json_parse_string_def json_quote_def parse_quote_units)

lemma parse_elements_rest_tail:
  "parse_elements_rest (concat (map (\<lambda>y. 0x2C # json_quote y) ys) @ 0x5D # r) = Some (ys, r)"
  by (induction ys) (simp_all add: cons_fst_def)

lemma json_parse_string_array_first:
  "json_parse_string_array (0x5B # json_quote x @ t) = cons_fst x (parse_elements_rest t)"
  by (simp add: json_parse_string_array_def json_quote_def json_parse_string_def parse_quote_units)

lemma json_parse_string_array_roundtrip:
  "json_parse_string_array (json_string_array xs @ r) = Some (xs, r)"
proof (cases xs)
  case Nil
  then show ?thesis
    by (simp add: json_parse_string_array_def json_string_array_def json_elements_def)
next
  case (Cons x ys)
  then have "json_string_array xs @ r =
      0x5B # json_quote x @ concat (map (\<lambda>y. 0x2C # json_quote y) ys) @ 0x5D # r"
    by (simp add: json_string_array_def json_elements_def)
  then show ?thesis
    using Cons by (simp only: json_parse_string_array_first parse_elements_rest_tail cons_fst_Some)
qed

end
