(* ===== verification/Prompt.thy ===== *)
theory Prompt
  imports Json_Stringify
begin

text \<open>
  The prompt composer: the template literal passed as \<open>contents\<close> to
  \<open>generateContent\<close> in \<open>GeminiBranch\<close> (\<open>src/src/index.ts\<close>, lines 63 to 79),
  character for character, with its three substitutions: \<open>JSON.stringify\<close> of the
  condition, \<open>JSON.stringify\<close> of the choices, and \<open>args.else ?? ""\<close> inserted
  verbatim. The template is cut into its four constant parts (\<open>prompt_head\<close>,
  \<open>prompt_mid\<close>, \<open>prompt_rules\<close>, \<open>prompt_end\<close>). The lemmas show that the
  JSON payload can be read back from the prompt (\<open>parse_prompt_payload\<close>), so that the
  condition and the choices are embedded unambiguously, whatever characters they hold and
  whatever the fallback text.
\<close>

definition nl :: char where
  "nl = CHR 0x0A"

definition prompt_head :: js_string where
  \<open>prompt_head = js_lit (
     [nl] @ ''      You are a strict conditional branching engine.'' @ [nl] @
     ''      From the "choices" array in the JSON below, output **exactly one element that matches completely**.'' @ [nl] @
     [nl] @
     ''      {'' @ [nl] @
     ''        "condition": '')\<close>

definition prompt_mid :: js_string where
  \<open>prompt_mid = js_lit ('','' @ [nl] @ ''        "choices": '')\<close>

definition prompt_rules :: js_string where
  \<open>prompt_rules = js_lit (
     [nl] @ ''      }'' @ [nl] @
     [nl] @
     ''      Output rules:'' @ [nl] @
     ''      - Output exactly one element from "choices"'' @ [nl] @
     ''      - Do NOT output JSON'' @ [nl] @
     ''      - Do NOT add explanations'' @ [nl] @
     ''      - Do NOT add extra spaces or line breaks'' @ [nl] @
     ''      - Do NOT output anything other than an element from "choices"'' @ [nl] @
     ''      - If no element matches, output '')\<close>

definition prompt_end :: js_string where
  \<open>prompt_end = js_lit ([nl] @ ''      '')\<close>

text \<open>The whole template: condition, choices and fallback substituted in order.\<close>

definition gemini_prompt :: "js_string \<Rightarrow> js_string list \<Rightarrow> js_string option \<Rightarrow> js_string" where
  "gemini_prompt cond cs els =
     prompt_head @ json_quote cond @ prompt_mid @ json_string_array cs @ prompt_rules @
     js_coalesce els [] @ prompt_end"

text \<open>Reading the payload back: the fixed head, a JSON string, the fixed separator and a
  JSON array of strings.\<close>

definition strip_prefix :: "js_string \<Rightarrow> js_string \<Rightarrow> js_string option" where
  "strip_prefix p s = (if take (length p) s = p then Some (drop (length p) s) else None)"

definition parse_prompt_payload :: "js_string \<Rightarrow> (js_string \<times> js_string list) option" where
  "parse_prompt_payload s =
     (case strip_prefix prompt_head s of
        None \<Rightarrow> None
      | Some s1 \<Rightarrow>
          (case json_parse_string s1 of
             None \<Rightarrow> None
           | Some (c, s2) \<Rightarrow>
               (case strip_prefix prompt_mid s2 of
                  None \<Rightarrow> None
                | Some s3 \<Rightarrow>
                    (case json_parse_string_array s3 of
                       None \<Rightarrow> None
                     | Some (cs, _) \<Rightarrow> Some (c, cs)))))"

lemma strip_prefix_append [simp]: "strip_prefix p (p @ s) = Some s"
  by (simp add: strip_prefix_def)

lemma parse_prompt_payload_prefix:
  "parse_prompt_payload (prompt_head @ json_quote c @ prompt_mid @ json_string_array cs @ rest) =
     Some (c, cs)"
  by (simp add: parse_prompt_payload_def json_parse_string_array_roundtrip)

text \<open>C14. The payload is unambiguous: the condition and the choices are read back from
  any prompt the composer renders, whatever the fallback text.\<close>

lemma gemini_prompt_payload:
  "parse_prompt_payload (gemini_prompt c cs e) = Some (c, cs)"
  unfolding gemini_prompt_def by (rule parse_prompt_payload_prefix)

end
