(* ===== verification/Gemini_Branch.thy ===== *)
theory Gemini_Branch
  imports Prompt
begin

text \<open>
  The exported function \<open>GeminiBranch\<close> and its helper \<open>fail\<close>
  (\<open>src/src/index.ts\<close>). \<open>GeminiBranchOptions\<close> and \<open>GeminiBranchResult\<close> are the
  records \<open>branch_options\<close> and \<open>branch_result\<close>; the observable effects of a call
  (the lines written by \<open>console.error\<close> and the requests sent to the backend) are the
  record \<open>world\<close>, passed and returned explicitly. The function is \<open>async\<close> with one
  \<open>await\<close>, so its body is split there: \<open>gb_start\<close> runs from the entry to the
  \<open>await\<close> (the two validations and the request) and either returns or suspends with the
  request; \<open>gb_resume\<close> runs from the resumption (the trimmed text, the fallback and
  membership checks) or from the \<open>catch\<close> when the backend rejected. The backend is an
  external collaborator: its answer to a request is a \<open>gen_outcome\<close>, either a response
  whose \<open>text\<close> may be \<open>undefined\<close>, or a thrown value. \<open>gemini_branch\<close> composes
  the two halves for a backend given as a function from requests to outcomes, and also
  takes the case of a caller that passes \<open>null\<close> or \<open>undefined\<close> as \<open>args\<close>.
\<close>

subsection \<open>Data\<close>

text \<open>\<open>GeminiBranchOptions\<close>. At run time the fields are whatever the caller passed:
  \<open>condition = None\<close> is a value whose \<open>typeof\<close> is not \<open>"string"\<close>,
  \<open>choices = None\<close> a value that is not an array, \<open>else_val = None\<close> and
  \<open>consoleErrors = None\<close> are \<open>undefined\<close> or \<open>null\<close>. (\<open>else\<close> is a keyword of
  HOL, hence \<open>else_val\<close>.)\<close>

record branch_options =
  condition :: "js_string option"
  choices :: "js_string list option"
  apiKey :: js_string
  model :: js_string
  else_val :: "js_string option"
  consoleErrors :: "bool option"

text \<open>\<open>GeminiBranchResult\<close>.\<close>

record branch_result =
  response :: bool
  result :: js_string
  message :: js_string

text \<open>The request handed to \<open>ai.models.generateContent\<close>, with the key given to the
  client's constructor.\<close>

record gen_request =
  req_apiKey :: js_string
  req_model :: js_string
  req_contents :: js_string

text \<open>What the program's environment observes: the \<open>console.error\<close> lines and the
  backend requests, in order.\<close>

record world =
  console :: "js_string list"
  requests :: "gen_request list"

text \<open>A thrown JavaScript value, described by what \<open>String(e)\<close> does with it: a value
  whose string conversion is \<open>s\<close>, a \<open>TypeError\<close> raised by the engine, or a value whose
  conversion throws (an object with no usable \<open>toString\<close>, such as one created by
  \<open>Object.create(null)\<close>).\<close>

datatype js_exn = JS_thrown js_string | JS_type_error | JS_unprintable

text \<open>The settlement of \<open>generateContent\<close>: fulfilled with a response whose
  \<open>text\<close> may be \<open>undefined\<close>, or rejected with a thrown value (a throw of the client's
  constructor is caught by the same \<open>try\<close>, and is also this case).\<close>

datatype gen_outcome = Gen_ok "js_string option" | Gen_error js_exn

subsection \<open>Operations\<close>

text \<open>\<open>String(e)\<close>: throws a \<open>TypeError\<close> for a value that cannot be converted.\<close>

fun js_to_string :: "js_exn \<Rightarrow> js_exn + js_string" where
  "js_to_string (JS_thrown s) = Inr s"
| "js_to_string JS_type_error = Inr (js_lit ''TypeError'')"
| "js_to_string JS_unprintable = Inl JS_type_error"

definition msg_bad_condition :: js_string where
  "msg_bad_condition = js_lit ''condition must be a non-empty string''"

definition msg_bad_choices :: js_string where
  "msg_bad_choices = js_lit ''choices must be a non-empty array''"

definition msg_no_match :: js_string where
  "msg_no_match = js_lit ''No matching choice''"

definition msg_success :: js_string where
  "msg_success = js_lit ''Success''"

definition msg_not_in_choices :: js_string where
  "msg_not_in_choices = js_lit ''Response by Gemini is not in choices: ''"

definition msg_api_error :: js_string where
  "msg_api_error = js_lit ''Gemini API error: ''"

text \<open>\<open>fail(message, args)\<close>: log when \<open>consoleErrors\<close> is set, and build the failed
  result with \<open>args.else ?? ""\<close>.\<close>

definition fail :: "js_string \<Rightarrow> branch_options \<Rightarrow> world \<Rightarrow> branch_result \<times> world" where
  "fail msg args w =
     (\<lparr>response = False, result = js_coalesce (else_val args) [], message = msg\<rparr>,
      if js_coalesce (consoleErrors args) False then w\<lparr>console := console w @ [msg]\<rparr> else w)"

text \<open>Where the body of \<open>GeminiBranch\<close> stands at its \<open>await\<close>: returned, or
  suspended on a request with the validated choices.\<close>

datatype branch_phase = Returned branch_result | Awaiting gen_request "js_string list"

definition returned :: "branch_result \<times> world \<Rightarrow> branch_phase \<times> world" where
  "returned rw = (Returned (fst rw), snd rw)"

text \<open>The argument of \<open>generateContent\<close>: the model, the rendered prompt, and the key of
  the client that sends it.\<close>

definition branch_request :: "branch_options \<Rightarrow> js_string \<Rightarrow> js_string list \<Rightarrow> gen_request" where
  "branch_request args c cs =
     \<lparr>req_apiKey = apiKey args, req_model = model args,
      req_contents = gemini_prompt c cs (else_val args)\<rparr>"

text \<open>From the entry to the \<open>await\<close>: the \<open>condition\<close> check, the \<open>choices\<close>
  check, then the request with the rendered prompt.\<close>

definition gb_start :: "branch_options \<Rightarrow> world \<Rightarrow> branch_phase \<times> world" where
  "gb_start args w =
     (case condition args of
        None \<Rightarrow> returned (fail msg_bad_condition args w)
      | Some c \<Rightarrow>
          if js_trim c = [] then returned (fail msg_bad_condition args w)
          else
            (case choices args of
               None \<Rightarrow> returned (fail msg_bad_choices args w)
             | Some cs \<Rightarrow>
                 if cs = [] then returned (fail msg_bad_choices args w)
                 else
                   (let req = branch_request args c cs
                    in (Awaiting req cs, w\<lparr>requests := requests w @ [req]\<rparr>))))"

text \<open>After the \<open>await\<close>, on the trimmed text: the fallback branch, the membership
  check, success.\<close>

definition gb_reconcile ::
  "branch_options \<Rightarrow> js_string list \<Rightarrow> js_string \<Rightarrow> world \<Rightarrow> branch_result \<times> world" where
  "gb_reconcile args cs msg w =
     (if js_truthy_str (else_val args) \<and> else_val args = Some msg then
        (\<lparr>response = True, result = msg, message = msg_no_match\<rparr>, w)
      else if \<not> js_includes cs msg then fail (msg_not_in_choices @ msg) args w
      else (\<lparr>response = True, result = msg, message = msg_success\<rparr>, w))"

text \<open>The settled promise of the call: \<open>Inl\<close> a rejection, \<open>Inr\<close> a result.\<close>

type_synonym branch_promise = "js_exn + branch_result"

definition resolved :: "branch_result \<times> world \<Rightarrow> branch_promise \<times> world" where
  "resolved rw = (Inr (fst rw), snd rw)"

text \<open>The resumption: \<open>String(response.text ?? "").trim()\<close> and the reconciler, or
  the \<open>catch\<close> block, in which \<open>String(e)\<close> may itself throw.\<close>

fun gb_resume ::
  "branch_options \<Rightarrow> js_string list \<Rightarrow> gen_outcome \<Rightarrow> world \<Rightarrow> branch_promise \<times> world" where
  "gb_resume args cs (Gen_ok text) w = resolved (gb_reconcile args cs (js_trim (js_coalesce text [])) w)"
| "gb_resume args cs (Gen_error e) w =
     (case js_to_string e of
        Inl e' \<Rightarrow> (Inl e', w)
      | Inr s \<Rightarrow> resolved (fail (msg_api_error @ s) args w))"

text \<open>The whole call, with the backend as a function from requests to outcomes. A
  \<open>null\<close> or \<open>undefined\<close> \<open>args\<close> throws a \<open>TypeError\<close> at \<open>args.condition\<close>;
  the \<open>catch\<close> calls \<open>fail\<close>, which throws again at \<open>args.consoleErrors\<close>, so the
  promise rejects.\<close>

fun gemini_branch ::
  "(gen_request \<Rightarrow> gen_outcome) \<Rightarrow> branch_options option \<Rightarrow> world \<Rightarrow> branch_promise \<times> world" where
  "gemini_branch gen None w = (Inl JS_type_error, w)"
| "gemini_branch gen (Some args) w =
     (case gb_start args w of
        (Returned r, w') \<Rightarrow> (Inr r, w')
      | (Awaiting req cs, w') \<Rightarrow> gb_resume args cs (gen req) w')"


subsection \<open>The two halves and the whole call\<close>

lemma fail_fst:
  "fst (fail msg args w) = \<lparr>response = False, result = js_coalesce (else_val args) [], message = msg\<rparr>"
  by (simp add: fail_def)

lemma fail_requests [simp]: "requests (snd (fail msg args w)) = requests w"
  by (simp add: fail_def)

text \<open>The call unfolded: the validations, then the resumption on the backend's answer to
  the one request, with that request recorded.\<close>

lemma gemini_branch_Some:
  "gemini_branch gen (Some args) w =
     (case condition args of
        None \<Rightarrow> resolved (fail msg_bad_condition args w)
      | Some c \<Rightarrow>
          if js_trim c = [] then resolved (fail msg_bad_condition args w)
          else
            (case choices args of
               None \<Rightarrow> resolved (fail msg_bad_choices args w)
             | Some cs \<Rightarrow>
                 if cs = [] then resolved (fail msg_bad_choices args w)
                 else gb_resume args cs (gen (branch_request args c cs))
                        (w\<lparr>requests := requests w @ [branch_request args c cs]\<rparr>)))"
  by (simp add: gb_start_def returned_def resolved_def Let_def split: option.splits prod.splits)

declare gemini_branch.simps(2) [simp del]

lemma gb_reconcile_success:
  assumes "response (fst (gb_reconcile args cs m w))"
  shows "result (fst (gb_reconcile args cs m w)) = m \<and>
    (m \<in> set cs \<or> (else_val args = Some m \<and> m \<noteq> []))"
  using assms by (auto simp: gb_reconcile_def fail_def split: if_splits)

lemma gb_reconcile_failure:
  assumes "\<not> response (fst (gb_reconcile args cs m w))"
  shows "gb_reconcile args cs m w = fail (msg_not_in_choices @ m) args w"
  using assms by (auto simp: gb_reconcile_def fail_def split: if_splits)

lemma gb_resume_success:
  assumes "fst (gb_resume args cs out w) = Inr r" and "response r"
  shows "\<exists>t. out = Gen_ok t \<and> result r = js_trim (js_coalesce t []) \<and>
    (result r \<in> set cs \<or> (else_val args = Some (result r) \<and> result r \<noteq> []))"
proof (cases out)
  case (Gen_ok t)
  with assms gb_reconcile_success [of args cs "js_trim (js_coalesce t [])"] show ?thesis
    by (auto simp: resolved_def)
next
  case (Gen_error e)
  with assms show ?thesis
    by (auto simp: resolved_def fail_def split: sum.splits)
qed

lemma gb_resume_failure:
  assumes "fst (gb_resume args cs out w) = Inr r" and "\<not> response r"
  shows "result r = js_coalesce (else_val args) [] \<and>
    ((\<exists>t. out = Gen_ok t \<and> message r = msg_not_in_choices @ js_trim (js_coalesce t [])) \<or>
     (\<exists>e s. out = Gen_error e \<and> js_to_string e = Inr s \<and> message r = msg_api_error @ s))"
proof (cases out)
  case (Gen_ok t)
  let ?m = "js_trim (js_coalesce t [])"
  from assms(1) Gen_ok have r: "r = fst (gb_reconcile args cs ?m w)"
    by (simp add: resolved_def)
  with assms(2) have "\<not> response (fst (gb_reconcile args cs ?m w))"
    by simp
  then have "gb_reconcile args cs ?m w = fail (msg_not_in_choices @ ?m) args w"
    by (rule gb_reconcile_failure)
  with r Gen_ok show ?thesis
    by (simp add: fail_fst)
next
  case (Gen_error e)
  with assms show ?thesis
    by (auto simp: resolved_def fail_def split: sum.splits)
qed

text \<open>The two ways a call with an options object goes: rejected by a validation before any
  request, or a request sent and the resumption run on the backend's answer.\<close>

lemma gemini_branch_SomeE:
  assumes "gemini_branch gen (Some args) w = (p, w')"
  obtains (invalid) msg where "msg = msg_bad_condition \<or> msg = msg_bad_choices"
      and "(p, w') = resolved (fail msg args w)"
    | (called) c cs where "condition args = Some c" and "js_trim c \<noteq> []"
      and "choices args = Some cs" and "cs \<noteq> []"
      and "(p, w') = gb_resume args cs (gen (branch_request args c cs))
                       (w\<lparr>requests := requests w @ [branch_request args c cs]\<rparr>)"
proof -
  have "gemini_branch gen (Some args) w = resolved (fail msg_bad_condition args w) \<or>
      gemini_branch gen (Some args) w = resolved (fail msg_bad_choices args w) \<or>
      (\<exists>c cs. condition args = Some c \<and> js_trim c \<noteq> [] \<and> choices args = Some cs \<and> cs \<noteq> [] \<and>
        gemini_branch gen (Some args) w = gb_resume args cs (gen (branch_request args c cs))
          (w\<lparr>requests := requests w @ [branch_request args c cs]\<rparr>))"
    unfolding gemini_branch_Some by (auto split: option.splits)
  then show thesis
  proof (elim disjE exE conjE)
    assume "gemini_branch gen (Some args) w = resolved (fail msg_bad_condition args w)"
    then show thesis by (intro that(1) [of msg_bad_condition]) (use assms in auto)
  next
    assume "gemini_branch gen (Some args) w = resolved (fail msg_bad_choices args w)"
    then show thesis by (intro that(1) [of msg_bad_choices]) (use assms in auto)
  next
    fix c cs
    assume "condition args = Some c" "js_trim c \<noteq> []" "choices args = Some cs" "cs \<noteq> []"
      and "gemini_branch gen (Some args) w = gb_resume args cs (gen (branch_request args c cs))
          (w\<lparr>requests := requests w @ [branch_request args c cs]\<rparr>)"
    then show thesis by (intro that(2) [of c cs]) (use assms in auto)
  qed
qed

lemma gemini_branch_resolvedE:
  assumes "fst (gemini_branch gen (Some args) w) = Inr r"
  obtains (invalid) msg where "msg = msg_bad_condition \<or> msg = msg_bad_choices"
      and "r = fst (fail msg args w)"
    | (called) c cs where "condition args = Some c" and "js_trim c \<noteq> []"
      and "choices args = Some cs" and "cs \<noteq> []"
      and "fst (gb_resume args cs (gen (branch_request args c cs))
                 (w\<lparr>requests := requests w @ [branch_request args c cs]\<rparr>)) = Inr r"
proof -
  obtain w' where "gemini_branch gen (Some args) w = (Inr r, w')"
    using assms by (cases "gemini_branch gen (Some args) w") simp
  then show ?thesis
  proof (cases rule: gemini_branch_SomeE)
    case (invalid msg)
    then show ?thesis by (intro that(1) [of msg]) (auto simp: resolved_def)
  next
    case (called c cs)
    then show ?thesis by (intro that(2) [of c cs]) (auto dest: sym)
  qed
qed

lemma gb_resume_requests [simp]: "requests (snd (gb_resume args cs out w)) = requests w"
  by (cases out) (auto simp: resolved_def gb_reconcile_def fail_def split: sum.splits)

text \<open>What the resumption writes to the console: the message of a failure, when
  \<open>consoleErrors\<close> is set, and nothing else.\<close>

lemma gb_resume_console:
  assumes "fst (gb_resume args cs out w) = Inr r"
  shows "console (snd (gb_resume args cs out w)) =
    console w @ (if \<not> response r \<and> js_coalesce (consoleErrors args) False then [message r] else [])"
proof (cases out)
  case (Gen_ok t)
  with assms show ?thesis
    by (auto simp: resolved_def gb_reconcile_def fail_def split: if_splits)
next
  case (Gen_error e)
  with assms show ?thesis
    by (auto simp: resolved_def fail_def split: sum.splits)
qed

text \<open>The settled value of the resumption does not depend on \<open>consoleErrors\<close> nor on
  the world it starts from.\<close>

lemma gb_resume_fst_independent:
  "fst (gb_resume (args\<lparr>consoleErrors := x\<rparr>) cs out w') = fst (gb_resume args cs out w)"
  by (cases out) (auto simp: resolved_def gb_reconcile_def fail_def split: sum.splits)

text \<open>The resumption rejects exactly when the backend rejected with a value that
  \<open>String\<close> cannot convert.\<close>

lemma gb_resume_rejects_iff:
  "(\<exists>e. fst (gb_resume args cs out w) = Inl e) \<longleftrightarrow> out = Gen_error JS_unprintable"
proof (cases out)
  case (Gen_ok t)
  then show ?thesis by (simp add: resolved_def)
next
  case (Gen_error e)
  then show ?thesis by (cases e) (simp_all add: resolved_def)
qed

lemma gb_resume_resolves_iff:
  "(\<exists>r. fst (gb_resume args cs out w) = Inr r) \<longleftrightarrow> out \<noteq> Gen_error JS_unprintable"
  using gb_resume_rejects_iff [of args cs out w] by (cases "fst (gb_resume args cs out w)") auto

lemma gb_resume_fst_consoleErrors:
  "fst (gb_resume (args\<lparr>consoleErrors := x\<rparr>) cs out w) = fst (gb_resume args cs out w)"
  by (cases out) (auto simp: resolved_def gb_reconcile_def fail_def split: sum.splits)

lemma fst_gb_reconcile_requests [simp]:
  "fst (gb_reconcile args cs m (w\<lparr>requests := rs\<rparr>)) = fst (gb_reconcile args cs m w)"
  by (simp only: gb_reconcile_def fail_def if_distrib [of fst] fst_conv)

text \<open>A call with valid inputs whose request the backend answered: its value is the
  reconciler's on the trimmed text.\<close>

lemma gemini_branch_answered:
  assumes "condition args = Some c" and "js_trim c \<noteq> []"
    and "choices args = Some cs" and "cs \<noteq> []"
    and "gen (branch_request args c cs) = Gen_ok t"
  shows "fst (gemini_branch gen (Some args) w) =
    Inr (fst (gb_reconcile args cs (js_trim (js_coalesce t [])) w))"
  using assms by (simp add: gemini_branch_Some resolved_def)

lemmas gemini_branch_unfold = gemini_branch_Some resolved_def fail_fst

subsection \<open>Properties of a call\<close>

text \<open>C1. Membership: a call that resolves with \<open>response = true\<close> had an array of
  choices, and its \<open>result\<close> is one of them or is the (non-empty) fallback.\<close>

theorem success_in_choices:
  assumes "fst (gemini_branch gen (Some args) w) = Inr r" and "response r"
  shows "\<exists>cs. choices args = Some cs \<and>
    (result r \<in> set cs \<or> (else_val args = Some (result r) \<and> result r \<noteq> []))"
  using assms(1)
proof (cases rule: gemini_branch_resolvedE)
  case (invalid msg)
  with assms(2) show ?thesis by (simp add: fail_fst)
next
  case (called c cs)
  with assms(2) show ?thesis by (blast dest: gb_resume_success)
qed

text \<open>C2. Failure shape: a call that resolves with \<open>response = false\<close> returns
  \<open>args.else ?? ""\<close> as its result and a non-empty message.\<close>

theorem failure_shape:
  assumes "fst (gemini_branch gen (Some args) w) = Inr r" and "\<not> response r"
  shows "result r = js_coalesce (else_val args) [] \<and> message r \<noteq> []"
  using assms(1)
proof (cases rule: gemini_branch_resolvedE)
  case (invalid msg)
  then show ?thesis by (auto simp: fail_fst msg_bad_condition_def msg_bad_choices_def)
next
  case (called c cs)
  with assms(2) show ?thesis
    by (auto simp: msg_not_in_choices_def msg_api_error_def dest!: gb_resume_failure)
qed

text \<open>C3. Rejection: the promise rejects exactly when the caller passes \<open>null\<close> or
  \<open>undefined\<close> as \<open>args\<close>, or when the inputs are valid and the backend rejects with a
  value whose string conversion throws; in both cases the \<open>catch\<close> block itself throws.\<close>

theorem rejects_iff:
  "(\<exists>e. fst (gemini_branch gen a w) = Inl e) \<longleftrightarrow>
     a = None \<or>
     (\<exists>args c cs. a = Some args \<and> condition args = Some c \<and> js_trim c \<noteq> [] \<and>
        choices args = Some cs \<and> cs \<noteq> [] \<and>
        gen (branch_request args c cs) = Gen_error JS_unprintable)"
proof (cases a)
  case None
  then show ?thesis by simp
next
  case (Some args)
  then show ?thesis
    by (auto simp: gemini_branch_Some resolved_def gb_resume_rejects_iff split: option.splits)
qed

text \<open>C4. Fast fail on the condition: when \<open>condition\<close> is not a string or is blank, the
  call resolves with the condition failure and sends no request, whatever the backend.\<close>

theorem invalid_condition_no_request:
  assumes "condition args = None \<or> (\<exists>c. condition args = Some c \<and> js_trim c = [])"
  shows "fst (gemini_branch gen (Some args) w) =
      Inr \<lparr>response = False, result = js_coalesce (else_val args) [], message = msg_bad_condition\<rparr> \<and>
    requests (snd (gemini_branch gen (Some args) w)) = requests w"
  using assms by (auto simp: gemini_branch_Some resolved_def fail_fst)

text \<open>C5. Fast fail on the choices: with a valid condition, when \<open>choices\<close> is not an
  array or is empty, the call resolves with the choices failure and sends no request.\<close>

theorem invalid_choices_no_request:
  assumes "condition args = Some c" and "js_trim c \<noteq> []"
    and "choices args = None \<or> choices args = Some []"
  shows "fst (gemini_branch gen (Some args) w) =
      Inr \<lparr>response = False, result = js_coalesce (else_val args) [], message = msg_bad_choices\<rparr> \<and>
    requests (snd (gemini_branch gen (Some args) w)) = requests w"
  using assms by (auto simp: gemini_branch_Some resolved_def fail_fst)

text \<open>C6. One round trip: a call with valid inputs sends exactly one request, whose
  contents are the prompt rendered from its condition, choices and fallback.\<close>

theorem valid_call_one_request:
  assumes "condition args = Some c" and "js_trim c \<noteq> []"
    and "choices args = Some cs" and "cs \<noteq> []"
  shows "requests (snd (gemini_branch gen (Some args) w)) =
    requests w @ [\<lparr>req_apiKey = apiKey args, req_model = model args,
                   req_contents = gemini_prompt c cs (else_val args)\<rparr>]"
  using assms by (simp add: gemini_branch_Some branch_request_def)

text \<open>C7. Exact match after trimming: when the backend's text is a listed choice padded
  with white space, the call succeeds with that choice and the message \<open>Success\<close>
  (unless the choice is also the fallback, C9).\<close>

theorem padded_choice_selected:
  assumes "condition args = Some c" and "js_trim c \<noteq> []" and "choices args = Some cs"
    and "m \<in> set cs" and "js_trimmed m"
    and "\<forall>u \<in> set pre. is_js_whitespace u" and "\<forall>u \<in> set post. is_js_whitespace u"
    and "else_val args \<noteq> Some m"
    and "gen (branch_request args c cs) = Gen_ok (Some (pre @ m @ post))"
  shows "fst (gemini_branch gen (Some args) w) =
    Inr \<lparr>response = True, result = m, message = msg_success\<rparr>"
proof -
  have "cs \<noteq> []" using assms(4) by auto
  with assms have "fst (gemini_branch gen (Some args) w) =
      Inr (fst (gb_reconcile args cs (js_trim (pre @ m @ post)) w))"
    by (simp add: gemini_branch_answered)
  also have "js_trim (pre @ m @ post) = m"
    using assms(5-7) by (rule js_trim_padded)
  finally show ?thesis
    using assms(4,8) by (simp add: gb_reconcile_def)
qed

text \<open>C8. Fallback precedence: when a non-empty fallback is configured and the trimmed text
  equals it, the call succeeds with the fallback and the message \<open>No matching choice\<close>,
  whether or not the fallback is also one of the choices.\<close>

theorem fallback_precedence:
  assumes "condition args = Some c" and "js_trim c \<noteq> []"
    and "choices args = Some cs" and "cs \<noteq> []"
    and "else_val args = Some e" and "e \<noteq> []"
    and "gen (branch_request args c cs) = Gen_ok t" and "js_trim (js_coalesce t []) = e"
  shows "fst (gemini_branch gen (Some args) w) =
    Inr \<lparr>response = True, result = e, message = msg_no_match\<rparr>"
  using assms by (simp add: gemini_branch_answered gb_reconcile_def)

text \<open>C9. Invalid response: when the trimmed text is neither a choice nor a non-empty
  configured fallback, the call fails with the text in its message and
  \<open>args.else ?? ""\<close> as its result.\<close>

theorem invalid_response_reported:
  assumes "condition args = Some c" and "js_trim c \<noteq> []"
    and "choices args = Some cs" and "cs \<noteq> []"
    and "gen (branch_request args c cs) = Gen_ok t" and "m = js_trim (js_coalesce t [])"
    and "m \<notin> set cs" and "\<not> (else_val args = Some m \<and> m \<noteq> [])"
  shows "fst (gemini_branch gen (Some args) w) =
    Inr \<lparr>response = False, result = js_coalesce (else_val args) [],
         message = msg_not_in_choices @ m\<rparr>"
  using assms by (auto simp: gemini_branch_answered gb_reconcile_def fail_def)

text \<open>C10. Backend failure: when the backend rejects with a value whose string conversion
  is \<open>s\<close>, the call resolves as a failure whose message is the API error prefix
  followed by \<open>s\<close>.\<close>

theorem backend_error_reported:
  assumes "condition args = Some c" and "js_trim c \<noteq> []"
    and "choices args = Some cs" and "cs \<noteq> []"
    and "gen (branch_request args c cs) = Gen_error e" and "js_to_string e = Inr s"
  shows "fst (gemini_branch gen (Some args) w) =
    Inr \<lparr>response = False, result = js_coalesce (else_val args) [], message = msg_api_error @ s\<rparr>"
  using assms by (simp add: gemini_branch_Some resolved_def fail_def)


text \<open>C12. Diagnostics: a resolved call writes its message to the console exactly when it
  failed and \<open>consoleErrors\<close> is \<open>true\<close>, and writes nothing else.\<close>

theorem console_logging:
  assumes "fst (gemini_branch gen (Some args) w) = Inr r"
  shows "console (snd (gemini_branch gen (Some args) w)) =
    console w @ (if \<not> response r \<and> consoleErrors args = Some True then [message r] else [])"
proof (cases "gemini_branch gen (Some args) w")
  case (Pair p w')
  have co: "js_coalesce (consoleErrors args) False \<longleftrightarrow> consoleErrors args = Some True"
    by (cases "consoleErrors args") auto
  from Pair show ?thesis
  proof (cases rule: gemini_branch_SomeE)
    case (invalid msg)
    with Pair assms co show ?thesis by (auto simp: resolved_def fail_def)
  next
    case (called c cs)
    let ?w1 = "w\<lparr>requests := requests w @ [branch_request args c cs]\<rparr>"
    from called(5) Pair have g: "gemini_branch gen (Some args) w =
        gb_resume args cs (gen (branch_request args c cs)) ?w1"
      by simp
    with assms have "fst (gb_resume args cs (gen (branch_request args c cs)) ?w1) = Inr r"
      by simp
    then have "console (snd (gb_resume args cs (gen (branch_request args c cs)) ?w1)) =
        console ?w1 @ (if \<not> response r \<and> js_coalesce (consoleErrors args) False then [message r] else [])"
      by (rule gb_resume_console)
    with g co show ?thesis by simp
  qed
qed

text \<open>C13. Logging never changes the answer: the settled value of a call does not depend on
  \<open>consoleErrors\<close>.\<close>

theorem result_independent_of_logging:
  "fst (gemini_branch gen (Some (args\<lparr>consoleErrors := x\<rparr>)) w) = fst (gemini_branch gen (Some args) w)"
  by (simp add: gemini_branch_Some resolved_def fail_def branch_request_def gb_resume_fst_consoleErrors
      split: option.splits)

text \<open>C17. A choice with white space at either end is never selected: the backend's
  text is trimmed before it is compared, so no successful call answers with such a string,
  whatever the backend returns, even a choice copied verbatim.\<close>

theorem untrimmed_never_selected:
  assumes "fst (gemini_branch gen (Some args) w) = Inr r" and "response r"
    and "\<not> js_trimmed c"
  shows "result r \<noteq> c"
  using assms(1)
proof (cases rule: gemini_branch_resolvedE)
  case (invalid msg)
  with assms(2) show ?thesis by (simp add: fail_fst)
next
  case (called c' cs)
  with assms(2) obtain t where "result r = js_trim (js_coalesce t [])"
    by (blast dest: gb_resume_success)
  with assms(3) js_trim_trimmed show ?thesis by metis
qed

subsection \<open>Concrete calls\<close>

text \<open>A call in the style of the spec's examples: the condition
  \<open>"Is it raining?"\<close>, the choices \<open>["Yes", "No"]\<close>, no fallback, logging on, and an
  empty world. The witnesses below apply each property to it or to a variant.\<close>

definition demo_args :: branch_options where
  "demo_args =
     \<lparr>condition = Some (js_lit ''Is it raining?''), choices = Some [js_lit ''Yes'', js_lit ''No''],
      apiKey = js_lit ''key'', model = js_lit ''gemini-2.0-flash'', else_val = None,
      consoleErrors = Some True\<rparr>"

definition demo_world :: world where
  "demo_world = \<lparr>console = [], requests = []\<rparr>"

lemmas demo_eval = demo_args_def demo_world_def gemini_branch_Some resolved_def
  gb_reconcile_def fail_def js_trim_def is_js_whitespace_def js_lit_simps

theorem success_in_choices_witness:
  "fst (gemini_branch (\<lambda>_. Gen_ok (Some (js_lit ''  Yes  ''))) (Some demo_args) demo_world) =
     Inr \<lparr>response = True, result = js_lit ''Yes'', message = msg_success\<rparr> \<and>
   (\<exists>cs. choices demo_args = Some cs \<and>
     (js_lit ''Yes'' \<in> set cs \<or> (else_val demo_args = Some (js_lit ''Yes'') \<and> js_lit ''Yes'' \<noteq> [])))"
proof -
  have e: "fst (gemini_branch (\<lambda>_. Gen_ok (Some (js_lit ''  Yes  ''))) (Some demo_args) demo_world) =
     Inr \<lparr>response = True, result = js_lit ''Yes'', message = msg_success\<rparr>"
    by (simp add: demo_eval)
  from e success_in_choices [OF e] show ?thesis by simp
qed

theorem failure_shape_witness:
  "fst (gemini_branch (\<lambda>_. Gen_ok (Some (js_lit ''Maybe''))) (Some demo_args) demo_world) =
     Inr \<lparr>response = False, result = [], message = msg_not_in_choices @ js_lit ''Maybe''\<rparr> \<and>
   [] = js_coalesce (else_val demo_args) [] \<and> msg_not_in_choices @ js_lit ''Maybe'' \<noteq> []"
proof -
  have e: "fst (gemini_branch (\<lambda>_. Gen_ok (Some (js_lit ''Maybe''))) (Some demo_args) demo_world) =
     Inr \<lparr>response = False, result = [], message = msg_not_in_choices @ js_lit ''Maybe''\<rparr>"
    by (simp add: demo_eval)
  from e failure_shape [OF e] show ?thesis by simp
qed

theorem rejects_iff_witness:
  "\<exists>e. fst (gemini_branch (\<lambda>_. Gen_error JS_unprintable) (Some demo_args) demo_world) = Inl e"
  using rejects_iff [of "\<lambda>_. Gen_error JS_unprintable" "Some demo_args" demo_world]
  by (simp add: demo_args_def js_trim_def is_js_whitespace_def js_lit_simps)

theorem invalid_condition_no_request_witness:
  "fst (gemini_branch (\<lambda>_. Gen_ok (Some (js_lit ''Yes'')))
       (Some (demo_args\<lparr>condition := Some (js_lit ''   '')\<rparr>)) demo_world) =
     Inr \<lparr>response = False, result = [], message = msg_bad_condition\<rparr> \<and>
   requests (snd (gemini_branch (\<lambda>_. Gen_ok (Some (js_lit ''Yes'')))
       (Some (demo_args\<lparr>condition := Some (js_lit ''   '')\<rparr>)) demo_world)) = []"
  using invalid_condition_no_request [of "demo_args\<lparr>condition := Some (js_lit ''   '')\<rparr>"
      "\<lambda>_. Gen_ok (Some (js_lit ''Yes''))" demo_world]
  by (simp add: demo_args_def demo_world_def js_trim_def is_js_whitespace_def js_lit_simps)

theorem invalid_choices_no_request_witness:
  "fst (gemini_branch (\<lambda>_. Gen_ok (Some (js_lit ''Yes'')))
       (Some (demo_args\<lparr>choices := Some []\<rparr>)) demo_world) =
     Inr \<lparr>response = False, result = [], message = msg_bad_choices\<rparr> \<and>
   requests (snd (gemini_branch (\<lambda>_. Gen_ok (Some (js_lit ''Yes'')))
       (Some (demo_args\<lparr>choices := Some []\<rparr>)) demo_world)) = []"
  using invalid_choices_no_request [of "demo_args\<lparr>choices := Some []\<rparr>" "js_lit ''Is it raining?''"
      "\<lambda>_. Gen_ok (Some (js_lit ''Yes''))" demo_world]
  by (simp add: demo_args_def demo_world_def js_trim_def is_js_whitespace_def js_lit_simps)

theorem valid_call_one_request_witness:
  "requests (snd (gemini_branch (\<lambda>_. Gen_ok (Some (js_lit ''Yes''))) (Some demo_args) demo_world)) =
    [\<lparr>req_apiKey = js_lit ''key'', req_model = js_lit ''gemini-2.0-flash'',
      req_contents = gemini_prompt (js_lit ''Is it raining?'') [js_lit ''Yes'', js_lit ''No''] None\<rparr>]"
  using valid_call_one_request [of demo_args "js_lit ''Is it raining?''" "[js_lit ''Yes'', js_lit ''No'']"
      "\<lambda>_. Gen_ok (Some (js_lit ''Yes''))" demo_world]
  by (simp add: demo_args_def demo_world_def js_trim_def is_js_whitespace_def js_lit_simps)

theorem padded_choice_selected_witness:
  "fst (gemini_branch (\<lambda>_. Gen_ok (Some (js_lit ''  Yes  ''))) (Some demo_args) demo_world) =
     Inr \<lparr>response = True, result = js_lit ''Yes'', message = msg_success\<rparr>"
  by (rule padded_choice_selected [where c = "js_lit ''Is it raining?''"
        and cs = "[js_lit ''Yes'', js_lit ''No'']" and pre = "js_lit ''  ''" and post = "js_lit ''  ''"])
    (simp_all add: demo_args_def js_trimmed_def js_trim_def is_js_whitespace_def js_lit_simps)

theorem fallback_precedence_witness:
  "fst (gemini_branch (\<lambda>_. Gen_ok (Some (js_lit ''A'')))
       (Some (demo_args\<lparr>choices := Some [js_lit ''A'', js_lit ''B''], else_val := Some (js_lit ''A'')\<rparr>))
       demo_world) =
     Inr \<lparr>response = True, result = js_lit ''A'', message = msg_no_match\<rparr>"
  by (rule fallback_precedence [where c = "js_lit ''Is it raining?''"
        and cs = "[js_lit ''A'', js_lit ''B'']" and t = "Some (js_lit ''A'')"])
    (simp_all add: demo_args_def js_trim_def is_js_whitespace_def js_lit_simps)

theorem invalid_response_reported_witness:
  "fst (gemini_branch (\<lambda>_. Gen_ok (Some (js_lit ''Z'')))
       (Some (demo_args\<lparr>choices := Some [js_lit ''X'', js_lit ''Y'']\<rparr>)) demo_world) =
     Inr \<lparr>response = False, result = [], message = msg_not_in_choices @ js_lit ''Z''\<rparr>"
  using invalid_response_reported [where args = "demo_args\<lparr>choices := Some [js_lit ''X'', js_lit ''Y'']\<rparr>"
      and c = "js_lit ''Is it raining?''" and cs = "[js_lit ''X'', js_lit ''Y'']"
      and t = "Some (js_lit ''Z'')" and m = "js_lit ''Z''" and gen = "\<lambda>_. Gen_ok (Some (js_lit ''Z''))"
      and w = demo_world]
  by (simp add: demo_args_def js_trim_def is_js_whitespace_def js_lit_simps)

theorem backend_error_reported_witness:
  "fst (gemini_branch (\<lambda>_. Gen_error (JS_thrown (js_lit ''Error: quota exceeded''))) (Some demo_args) demo_world) =
     Inr \<lparr>response = False, result = [], message = msg_api_error @ js_lit ''Error: quota exceeded''\<rparr>"
  using backend_error_reported [where args = demo_args and c = "js_lit ''Is it raining?''"
      and cs = "[js_lit ''Yes'', js_lit ''No'']" and e = "JS_thrown (js_lit ''Error: quota exceeded'')"
      and s = "js_lit ''Error: quota exceeded''"
      and gen = "\<lambda>_. Gen_error (JS_thrown (js_lit ''Error: quota exceeded''))" and w = demo_world]
  by (simp add: demo_args_def js_trim_def is_js_whitespace_def js_lit_simps)


theorem console_logging_witness:
  "console (snd (gemini_branch (\<lambda>_. Gen_ok (Some (js_lit ''Maybe''))) (Some demo_args) demo_world)) =
     [msg_not_in_choices @ js_lit ''Maybe'']"
proof -
  have e: "fst (gemini_branch (\<lambda>_. Gen_ok (Some (js_lit ''Maybe''))) (Some demo_args) demo_world) =
     Inr \<lparr>response = False, result = [], message = msg_not_in_choices @ js_lit ''Maybe''\<rparr>"
    by (simp add: demo_eval)
  from console_logging [OF e] show ?thesis by (simp add: demo_args_def demo_world_def)
qed

definition demo_padded_args :: branch_options where
  "demo_padded_args = demo_args\<lparr>choices := Some [js_lit '' Yes'', js_lit ''No'']\<rparr>"

theorem untrimmed_never_selected_witness:
  "fst (gemini_branch (\<lambda>_. Gen_ok (Some (js_lit ''No''))) (Some demo_padded_args) demo_world) =
     Inr \<lparr>response = True, result = js_lit ''No'', message = msg_success\<rparr> \<and>
   js_lit '' Yes'' \<in> set (the (choices demo_padded_args)) \<and> js_lit ''No'' \<noteq> js_lit '' Yes''"
proof -
  have e: "fst (gemini_branch (\<lambda>_. Gen_ok (Some (js_lit ''No''))) (Some demo_padded_args) demo_world) =
     Inr \<lparr>response = True, result = js_lit ''No'', message = msg_success\<rparr>"
    by (simp add: demo_padded_args_def demo_eval)
  have "\<not> js_trimmed (js_lit '' Yes'')"
    by (simp add: js_trimmed_def is_js_whitespace_def js_lit_simps)
  from e untrimmed_never_selected [OF e _ this] show ?thesis
    by (simp add: demo_padded_args_def)
qed

text \<open>The padded choice is unreachable even when the backend obeys the prompt and copies
  it verbatim: the call then fails.\<close>

lemma padded_choice_copied_fails:
  "fst (gemini_branch (\<lambda>_. Gen_ok (Some (js_lit '' Yes''))) (Some demo_padded_args) demo_world) =
     Inr \<lparr>response = False, result = [], message = msg_not_in_choices @ js_lit ''Yes''\<rparr>"
  by (simp add: demo_padded_args_def demo_eval)

end
