(* ===== verification/Call_Machine.thy ===== *)
theory Call_Machine
  imports Gemini_Branch "HOL-Library.Multiset"
begin

text \<open>
  Calls of \<open>GeminiBranch\<close> as a state machine over their phases, and several calls
  running concurrently in one process. A call starts (\<open>Call_start\<close>, with the argument
  the caller passed), runs to its \<open>await\<close> and either settles or suspends on its request
  (\<open>Call_suspended\<close>); a suspended call resumes when the backend's promise settles, with
  any outcome the environment chooses, and settles (\<open>Call_settled\<close>, the settled
  promise). The steps are the rules of \<open>call_step\<close>, each one the source's code between
  two suspension points (\<open>gb_start\<close>, \<open>gb_resume\<close>) acting on the shared \<open>world\<close>;
  \<open>sys_step\<close> is the event loop, running one step of one call at a time in an order it
  chooses. The lemmas account for the shared world under every interleaving: the console
  holds exactly the lines each call logs (\<open>phase_log\<close>), and the backend receives exactly
  one request from each call whose input is valid and none from the others
  (\<open>phase_request\<close>). Both follow from one accounting lemma, \<open>sys_reachable_account\<close>,
  that lifts a per-call balance of one step to every run of the event loop.
\<close>

datatype call_state =
    Call_start "branch_options option"
  | Call_suspended branch_options gen_request "js_string list"
  | Call_settled branch_promise

inductive call_step :: "call_state \<times> world \<Rightarrow> call_state \<times> world \<Rightarrow> bool" where
  start_null: "call_step (Call_start None, w) (Call_settled (Inl JS_type_error), w)"
| start_returned:
    "gb_start args w = (Returned r, w') \<Longrightarrow>
     call_step (Call_start (Some args), w) (Call_settled (Inr r), w')"
| start_awaiting:
    "gb_start args w = (Awaiting req cs, w') \<Longrightarrow>
     call_step (Call_start (Some args), w) (Call_suspended args req cs, w')"
| resume:
    "gb_resume args cs out w = (p, w') \<Longrightarrow>
     call_step (Call_suspended args req cs, w) (Call_settled p, w')"

text \<open>Several calls in one process: the event loop runs one call at a time up to its next
  suspension point, in an order it chooses, over the one shared world.\<close>

inductive sys_step :: "call_state list \<times> world \<Rightarrow> call_state list \<times> world \<Rightarrow> bool" where
  pick: "i < length cs \<Longrightarrow> call_step (cs ! i, w) (c', w') \<Longrightarrow> sys_step (cs, w) (cs[i := c'], w')"

text \<open>The request a call sends, by the validation of section 4.1 of the design: one for a
  non-null argument whose condition is a string not blank after trimming and whose choices
  are a non-empty array, none otherwise.\<close>

definition sent_request :: "branch_options option \<Rightarrow> gen_request option" where
  "sent_request a =
     (case a of
        None \<Rightarrow> None
      | Some args \<Rightarrow>
          (case (condition args, choices args) of
             (Some c, Some cs) \<Rightarrow>
               if js_trim c \<noteq> [] \<and> cs \<noteq> [] then Some (branch_request args c cs) else None
           | _ \<Rightarrow> None))"

text \<open>The invariant of a call's phase: it keeps its argument, and a suspended call waits
  on the request its argument sends.\<close>

fun call_arg :: "branch_options option \<Rightarrow> call_state \<Rightarrow> bool" where
  "call_arg a (Call_start a') = (a' = a)"
| "call_arg a (Call_suspended args req cs) = (a = Some args \<and> sent_request a = Some req)"
| "call_arg a (Call_settled p) = True"

subsection \<open>The start of a call and the shared world\<close>

lemma gb_start_returned_sent:
  assumes "gb_start args w = (Returned r, w')"
  shows "requests w' = requests w \<and> sent_request (Some args) = None"
  using assms
  by (auto simp: gb_start_def returned_def fail_def sent_request_def Let_def
      split: option.splits if_splits)

lemma gb_start_awaiting_sent:
  assumes "gb_start args w = (Awaiting req cs, w')"
  shows "requests w' = requests w @ [req] \<and> sent_request (Some args) = Some req"
  using assms
  by (auto simp: gb_start_def returned_def sent_request_def Let_def split: option.splits if_splits)

lemma call_step_call_arg:
  assumes "call_step (c, w) (c', w')" and "call_arg a c"
  shows "call_arg a c'"
  using assms(1)
proof (cases rule: call_step.cases)
  case (start_awaiting args req cs)
  with assms(2) gb_start_awaiting_sent [of args w req cs w'] show ?thesis by simp
qed simp_all

lemma sys_reachable_call_arg:
  assumes "sys_step\<^sup>*\<^sup>* (map Call_start as, w) s"
  shows "length (fst s) = length as \<and> (\<forall>i < length as. call_arg (as ! i) (fst s ! i))"
  using assms
proof (induction rule: rtranclp_induct)
  case (step y z)
  from step.hyps(2) show ?case
  proof (cases rule: sys_step.cases)
    case (pick i cs w0 c' w')
    with step.IH have "call_arg (as ! i) c'" by (auto intro: call_step_call_arg)
    with pick step.IH show ?thesis by (auto simp: nth_list_update)
  qed
qed simp

subsection \<open>Accounting the shared world over interleavings\<close>

lemma sum_list_update:
  fixes f :: "nat \<Rightarrow> 'b \<Rightarrow> 'a::comm_monoid_add"
  assumes "i < n" and "length cs = n"
  shows "(\<Sum>j<n. f j (cs[i := c'] ! j)) + f i (cs ! i) = (\<Sum>j<n. f j (cs ! j)) + f i c'"
proof -
  have rest: "(\<Sum>j \<in> {..<n} - {i}. f j (cs[i := c'] ! j)) = (\<Sum>j \<in> {..<n} - {i}. f j (cs ! j))"
    by (rule sum.cong) auto
  have "(\<Sum>j<n. f j (cs[i := c'] ! j)) = f i c' + (\<Sum>j \<in> {..<n} - {i}. f j (cs[i := c'] ! j))"
    using assms by (simp add: sum.remove [of "{..<n}" i])
  moreover have "(\<Sum>j<n. f j (cs ! j)) = f i (cs ! i) + (\<Sum>j \<in> {..<n} - {i}. f j (cs ! j))"
    using assms by (simp add: sum.remove [of "{..<n}" i])
  ultimately show ?thesis
    using rest by (simp add: ac_simps)
qed

text \<open>If every step of a call changes a measure \<open>g\<close> of the world by what it adds to the
  call's own share \<open>f\<close>, and no call has a share before it starts, then under every
  interleaving the measure is its initial value plus the shares of all calls.\<close>

lemma sys_reachable_account:
  fixes g :: "world \<Rightarrow> 'm::cancel_comm_monoid_add"
    and f :: "branch_options option \<Rightarrow> call_state \<Rightarrow> 'm"
  assumes run: "sys_step\<^sup>*\<^sup>* (map Call_start as, w) s"
    and start: "\<And>a. f a (Call_start a) = 0"
    and balance: "\<And>a c v c' v'. call_step (c, v) (c', v') \<Longrightarrow> call_arg a c \<Longrightarrow>
      g v' + f a c = g v + f a c'"
  shows "g (snd s) = g w + (\<Sum>i<length as. f (as ! i) (fst s ! i))"
  using run
proof (induction rule: rtranclp_induct)
  case base
  have "\<forall>i \<in> {..<length as}. f (as ! i) (map Call_start as ! i) = 0"
    by (simp add: start)
  then show ?case by simp
next
  case (step y z)
  from step.hyps(2) show ?case
  proof (cases rule: sys_step.cases)
    case (pick i cs w0 c' w')
    from sys_reachable_call_arg [OF step.hyps(1)] pick have len: "length cs = length as"
      and ok: "\<forall>j < length as. call_arg (as ! j) (cs ! j)" by simp_all
    from pick len ok have st: "g w' + f (as ! i) (cs ! i) = g w0 + f (as ! i) c'"
      by (auto intro: balance)
    from pick len have sm: "(\<Sum>j<length as. f (as ! j) (cs[i := c'] ! j)) + f (as ! i) (cs ! i) =
        (\<Sum>j<length as. f (as ! j) (cs ! j)) + f (as ! i) c'"
      using sum_list_update [of i "length as" cs "\<lambda>j. f (as ! j)" c'] by simp
    have "g w' + f (as ! i) (cs ! i) =
        g w + (\<Sum>j<length as. f (as ! j) (cs[i := c'] ! j)) + f (as ! i) (cs ! i)"
      using st sm step.IH pick by (simp add: ac_simps)
    with pick show ?thesis by simp
  qed
qed

subsection \<open>The console under interleaving\<close>

text \<open>What a settled call writes to the console: its message, when it failed and
  \<open>consoleErrors\<close> is \<open>true\<close>.\<close>

definition call_log :: "branch_options option \<Rightarrow> branch_promise \<Rightarrow> js_string list" where
  "call_log a p =
     (case (a, p) of
        (Some args, Inr r) \<Rightarrow>
          if \<not> response r \<and> consoleErrors args = Some True then [message r] else []
      | _ \<Rightarrow> [])"

fun phase_log :: "branch_options option \<Rightarrow> call_state \<Rightarrow> js_string multiset" where
  "phase_log a (Call_settled p) = mset (call_log a p)"
| "phase_log a _ = {#}"

lemma js_coalesce_consoleErrors:
  "js_coalesce (consoleErrors args) False \<longleftrightarrow> consoleErrors args = Some True"
  by (cases "consoleErrors args") auto

lemma gb_start_returned_console:
  assumes "gb_start args w = (Returned r, w')"
  shows "console w' = console w @ call_log (Some args) (Inr r)"
  using assms
  by (auto simp: gb_start_def returned_def fail_def call_log_def Let_def js_coalesce_consoleErrors
      split: option.splits if_splits)

lemma gb_start_awaiting_console:
  assumes "gb_start args w = (Awaiting req cs, w')"
  shows "console w' = console w"
  using assms by (auto simp: gb_start_def returned_def Let_def split: option.splits if_splits)

lemma gb_resume_console_log:
  assumes "gb_resume args cs out w = (p, w')"
  shows "console w' = console w @ call_log (Some args) p"
proof (cases p)
  case (Inl e)
  with assms show ?thesis
    by (cases out) (auto simp: resolved_def call_log_def split: sum.splits)
next
  case (Inr r)
  with assms gb_resume_console [of args cs out w r] show ?thesis
    by (simp add: call_log_def js_coalesce_consoleErrors)
qed

lemma call_step_console:
  assumes "call_step (c, w) (c', w')" and "call_arg a c"
  shows "mset (console w') + phase_log a c = mset (console w) + phase_log a c'"
  using assms(1)
proof (cases rule: call_step.cases)
  case start_null
  with assms(2) show ?thesis by (simp add: call_log_def)
next
  case (start_returned args r)
  with assms(2) gb_start_returned_console [of args w r w'] show ?thesis by simp
next
  case (start_awaiting args req cs)
  with gb_start_awaiting_console [of args w req cs w'] show ?thesis by simp
next
  case (resume args cs out p req)
  with assms(2) gb_resume_console_log [of args cs out w p w'] show ?thesis by simp
qed

text \<open>C15. Interleaved logging: whatever the interleaving of concurrent calls, the lines
  on the console are, as a multiset, those there before and those each settled call writes
  when it runs alone.\<close>

theorem interleaved_console:
  assumes "sys_step\<^sup>*\<^sup>* (map Call_start as, w) (cs, w')"
  shows "mset (console w') = mset (console w) + (\<Sum>i<length as. phase_log (as ! i) (cs ! i))"
  using sys_reachable_account [OF assms, where g = "\<lambda>v. mset (console v)" and f = phase_log] call_step_console
  by simp

subsection \<open>The backend requests under interleaving\<close>

text \<open>The requests a call has sent: none before it starts, and afterwards the one its
  argument sends, if any.\<close>

fun phase_request :: "branch_options option \<Rightarrow> call_state \<Rightarrow> gen_request multiset" where
  "phase_request a (Call_start a') = {#}"
| "phase_request a c = (case sent_request a of None \<Rightarrow> {#} | Some req \<Rightarrow> {#req#})"

lemma call_step_requests:
  assumes "call_step (c, w) (c', w')" and "call_arg a c"
  shows "mset (requests w') + phase_request a c = mset (requests w) + phase_request a c'"
  using assms(1)
proof (cases rule: call_step.cases)
  case start_null
  with assms(2) show ?thesis by (simp add: sent_request_def)
next
  case (start_returned args r)
  with assms(2) gb_start_returned_sent [of args w r w'] show ?thesis by simp
next
  case (start_awaiting args req cs)
  with assms(2) gb_start_awaiting_sent [of args w req cs w'] show ?thesis by simp
next
  case (resume args cs out p req)
  then have "requests w' = requests w"
    using gb_resume_requests [of args cs out w] by simp
  with resume show ?thesis by simp
qed

text \<open>C18. One round trip per valid call: whatever the interleaving of concurrent calls,
  the requests the backend has received are, as a multiset, those before and, for each call
  that has run its start, the one request of section 4.1's valid input with the call's
  key, model and prompt; an invalid call sends none, and no call sends twice.\<close>

theorem interleaved_requests:
  assumes "sys_step\<^sup>*\<^sup>* (map Call_start as, w) (cs, w')"
  shows "mset (requests w') = mset (requests w) + (\<Sum>i<length as. phase_request (as ! i) (cs ! i))"
  using sys_reachable_account [OF assms, where g = "\<lambda>v. mset (requests v)" and f = phase_request] call_step_requests
  by simp

subsection \<open>Concrete runs\<close>

lemma demo_start_awaits:
  "call_step (Call_start (Some demo_args), w)
     (Call_suspended demo_args
        (branch_request demo_args (js_lit ''Is it raining?'') [js_lit ''Yes'', js_lit ''No''])
        [js_lit ''Yes'', js_lit ''No''],
      w\<lparr>requests := requests w @
          [branch_request demo_args (js_lit ''Is it raining?'') [js_lit ''Yes'', js_lit ''No'']]\<rparr>)"
  by (rule start_awaiting)
    (simp add: gb_start_def Let_def demo_args_def js_trim_def is_js_whitespace_def js_lit_simps)

lemma demo_resume_no:
  "call_step (Call_suspended demo_args req [js_lit ''Yes'', js_lit ''No''], w)
     (Call_settled (Inr \<lparr>response = True, result = js_lit ''No'', message = msg_success\<rparr>), w)"
  by (rule resume [where out = "Gen_ok (Some (js_lit ''No''))"])
    (simp add: resolved_def gb_reconcile_def demo_args_def js_trim_def is_js_whitespace_def js_lit_simps)

definition demo_blank_args :: branch_options where
  "demo_blank_args = demo_args\<lparr>condition := Some (js_lit ''   '')\<rparr>"

lemma demo_blank_fails:
  "call_step (Call_start (Some demo_blank_args), w)
     (Call_settled (Inr \<lparr>response = False, result = [], message = msg_bad_condition\<rparr>),
      w\<lparr>console := console w @ [msg_bad_condition]\<rparr>)"
  by (rule start_returned)
    (simp add: gb_start_def returned_def fail_def demo_blank_args_def demo_args_def
      js_trim_def is_js_whitespace_def js_lit_simps)

text \<open>Two concurrent calls on \<open>demo_world\<close>: the first starts and suspends on its
  request, the second fails validation and logs, then the first resumes with the answer
  \<open>"No"\<close>.\<close>

lemma demo_interleaved_run:
  "sys_step\<^sup>*\<^sup>* (map Call_start [Some demo_args, Some demo_blank_args], demo_world)
     ([Call_settled (Inr \<lparr>response = True, result = js_lit ''No'', message = msg_success\<rparr>),
       Call_settled (Inr \<lparr>response = False, result = [], message = msg_bad_condition\<rparr>)],
      \<lparr>console = [msg_bad_condition],
       requests = [branch_request demo_args (js_lit ''Is it raining?'') [js_lit ''Yes'', js_lit ''No'']]\<rparr>)"
proof -
  define req where "req = branch_request demo_args (js_lit ''Is it raining?'') [js_lit ''Yes'', js_lit ''No'']"
  define a where "a = Call_start (Some demo_args)"
  define b where "b = Call_start (Some demo_blank_args)"
  define s where "s = Call_suspended demo_args req [js_lit ''Yes'', js_lit ''No'']"
  define d where "d = Call_settled (Inr \<lparr>response = True, result = js_lit ''No'', message = msg_success\<rparr>)"
  define e where "e = Call_settled (Inr \<lparr>response = False, result = [], message = msg_bad_condition\<rparr>)"
  define w1 where "w1 = \<lparr>console = [], requests = [req]\<rparr>"
  define w2 where "w2 = \<lparr>console = [msg_bad_condition], requests = [req]\<rparr>"
  have 1: "sys_step ([a, b], demo_world) ([s, b], w1)"
    using pick [of 0 "[a, b]" demo_world s w1] demo_start_awaits [of demo_world]
    by (simp add: a_def s_def req_def w1_def demo_world_def)
  have 2: "sys_step ([s, b], w1) ([s, e], w2)"
    using pick [of 1 "[s, b]" w1 e w2] demo_blank_fails [of w1]
    by (simp add: b_def e_def w1_def w2_def)
  have 3: "sys_step ([s, e], w2) ([d, e], w2)"
    using pick [of 0 "[s, e]" w2 d w2] demo_resume_no [of req w2]
    by (simp add: s_def d_def)
  have m: "map Call_start [Some demo_args, Some demo_blank_args] = [a, b]" by (simp add: a_def b_def)
  from 1 2 3 have "sys_step\<^sup>*\<^sup>* (map Call_start [Some demo_args, Some demo_blank_args], demo_world) ([d, e], w2)"
    unfolding m by (meson converse_rtranclp_into_rtranclp rtranclp.rtrancl_refl)
  then show ?thesis by (simp add: d_def e_def w2_def req_def)
qed

theorem interleaved_console_witness:
  "mset [msg_bad_condition] =
     {#} + (\<Sum>i<2. phase_log ([Some demo_args, Some demo_blank_args] ! i)
       ([Call_settled (Inr \<lparr>response = True, result = js_lit ''No'', message = msg_success\<rparr>),
         Call_settled (Inr \<lparr>response = False, result = [], message = msg_bad_condition\<rparr>)] ! i))"
  using interleaved_console [OF demo_interleaved_run] by (simp add: demo_world_def numeral_2_eq_2)

theorem interleaved_requests_witness:
  "mset [branch_request demo_args (js_lit ''Is it raining?'') [js_lit ''Yes'', js_lit ''No'']] =
     {#} + (\<Sum>i<2. phase_request ([Some demo_args, Some demo_blank_args] ! i)
       ([Call_settled (Inr \<lparr>response = True, result = js_lit ''No'', message = msg_success\<rparr>),
         Call_settled (Inr \<lparr>response = False, result = [], message = msg_bad_condition\<rparr>)] ! i))"
  using interleaved_requests [OF demo_interleaved_run]
  by (simp add: demo_world_def numeral_2_eq_2)

end
