(* ===== verification/Decision_Spec.thy ===== *)
theory Decision_Spec
  imports Gemini_Branch
begin

text \<open>
  The abstract contract of the design document, written independently of the code: the
  decision state machine of the response reconciler (\<open>Start \<rightarrow> Validate \<rightarrow>
  Fail(invalid-input) | Compose&Invoke \<rightarrow> Fail(backend-error) | Reconcile \<rightarrow>
  Success(fallback) | Success(choice) | Fail(invalid-response)\<close>) as a function
  \<open>spec_decide\<close> from a request and an abstract backend to one of five outcomes, and
  \<open>decision_result\<close>, the \<open>DecisionResult\<close> each outcome is reported as. The backend
  is a function from (prompt, model, credential) to an answer text or a failure detail,
  as the outbound contract has it. The design leaves the backend's name in the
  mismatch message (\<open>"Response by <backend> ..."\<close>) open and fixes the backend-error
  prefix as \<open>"Backend error: "\<close>; both are parameters of \<open>decision_result\<close>, so that
  the refinement lemma can say which prefix the code uses. The refinement lemma shows that
  \<open>gemini_branch\<close> implements this contract for every request whose fallback is not the
  empty string and every backend whose rejection values \<open>String()\<close> can print; the two
  lemmas after it show that neither exclusion can be dropped and that the code's prefix is
  not the design's.
\<close>

datatype backend_answer = Answered js_string | Backend_failed js_string

datatype decision =
    Invalid_input js_string
  | Backend_error js_string
  | Fallback_match js_string
  | Choice_match js_string
  | Invalid_response js_string

text \<open>The decision of section 4: validation first (a condition that is a string not blank
  after trimming, a non-empty sequence of choices), then the single backend round trip with
  the composed prompt, then the reconciler's three outcomes in their priority order, on
  the answer trimmed of white space.\<close>

definition spec_decide ::
  "(js_string \<Rightarrow> js_string \<Rightarrow> js_string \<Rightarrow> backend_answer) \<Rightarrow> branch_options \<Rightarrow> decision" where
  "spec_decide backend args =
     (case condition args of
        None \<Rightarrow> Invalid_input (js_lit ''condition must be a non-empty string'')
      | Some c \<Rightarrow>
          if js_trim c = [] then Invalid_input (js_lit ''condition must be a non-empty string'')
          else (case choices args of
                  None \<Rightarrow> Invalid_input (js_lit ''choices must be a non-empty array'')
                | Some cs \<Rightarrow>
                    if cs = [] then Invalid_input (js_lit ''choices must be a non-empty array'')
                    else (case backend (gemini_prompt c cs (else_val args)) (model args) (apiKey args) of
                            Backend_failed d \<Rightarrow> Backend_error d
                          | Answered t \<Rightarrow>
                              (let r = js_trim t in
                               if else_val args = Some r then Fallback_match r
                               else if r \<in> set cs then Choice_match r
                               else Invalid_response r))))"

text \<open>The \<open>DecisionResult\<close> of each outcome (sections 3, 4.4 and 7): a failure selects
  \<open>fallback ?? ""\<close>.\<close>

definition spec_failure :: "branch_options \<Rightarrow> js_string \<Rightarrow> branch_result" where
  "spec_failure args m = \<lparr>response = False, result = js_coalesce (else_val args) [], message = m\<rparr>"

fun decision_result :: "js_string \<Rightarrow> js_string \<Rightarrow> branch_options \<Rightarrow> decision \<Rightarrow> branch_result" where
  "decision_result backend_name err_prefix args (Invalid_input m) = spec_failure args m"
| "decision_result backend_name err_prefix args (Backend_error d) = spec_failure args (err_prefix @ d)"
| "decision_result backend_name err_prefix args (Fallback_match f) =
     \<lparr>response = True, result = f, message = js_lit ''No matching choice''\<rparr>"
| "decision_result backend_name err_prefix args (Choice_match r) =
     \<lparr>response = True, result = r, message = js_lit ''Success''\<rparr>"
| "decision_result backend_name err_prefix args (Invalid_response r) =
     spec_failure args (js_lit ''Response by '' @ backend_name @ js_lit '' is not in choices: '' @ r)"

text \<open>How a settlement of \<open>generateContent\<close> reads as an abstract answer: a fulfilled
  response's text (\<open>response.text ?? ""\<close>), or the failure detail \<open>String(e)\<close>; a
  rejection value that \<open>String()\<close> cannot convert has no abstract counterpart.\<close>

fun answer_of :: "gen_outcome \<Rightarrow> backend_answer option" where
  "answer_of (Gen_ok t) = Some (Answered (js_coalesce t []))"
| "answer_of (Gen_error e) = (case js_to_string e of Inl _ \<Rightarrow> None | Inr s \<Rightarrow> Some (Backend_failed s))"

definition implements_backend ::
  "(gen_request \<Rightarrow> gen_outcome) \<Rightarrow> (js_string \<Rightarrow> js_string \<Rightarrow> js_string \<Rightarrow> backend_answer) \<Rightarrow> bool" where
  "implements_backend gen backend \<longleftrightarrow>
     (\<forall>req. answer_of (gen req) = Some (backend (req_contents req) (req_model req) (req_apiKey req)))"

lemma implements_backend_at:
  assumes "implements_backend gen backend"
  shows "answer_of (gen (branch_request args c cs)) =
    Some (backend (gemini_prompt c cs (else_val args)) (model args) (apiKey args))"
  using assms by (simp add: implements_backend_def branch_request_def)

lemma gb_reconcile_spec:
  assumes "else_val args \<noteq> Some []"
  shows "fst (gb_reconcile args cs r w) =
    decision_result (js_lit ''Gemini'') msg_api_error args
      (if else_val args = Some r then Fallback_match r
       else if r \<in> set cs then Choice_match r else Invalid_response r)"
  using assms
  by (cases "else_val args")
    (auto simp: gb_reconcile_def fail_def spec_failure_def msg_no_match_def msg_success_def
      msg_not_in_choices_def js_lit_simps)

lemma gb_resume_spec:
  assumes "else_val args \<noteq> Some []" and "answer_of out = Some ans"
  shows "fst (gb_resume args cs out w) =
    Inr (decision_result (js_lit ''Gemini'') msg_api_error args
      (case ans of
         Backend_failed d \<Rightarrow> Backend_error d
       | Answered t \<Rightarrow>
           (let r = js_trim t in
            if else_val args = Some r then Fallback_match r
            else if r \<in> set cs then Choice_match r
            else Invalid_response r)))"
  using assms
  by (cases out) (auto simp: resolved_def gb_reconcile_spec fail_def spec_failure_def split: sum.splits)

text \<open>C16. Refinement of the design's decision contract: for a request whose fallback is
  not the empty string, and a backend whose every settlement reads as an abstract answer,
  the code settles to exactly the \<open>DecisionResult\<close> of the design's decision, with the
  backend named \<open>Gemini\<close> and the backend-error prefix \<open>"Gemini API error: "\<close>.\<close>

theorem gemini_branch_refines_spec:
  assumes "else_val args \<noteq> Some []" and "implements_backend gen backend"
  shows "fst (gemini_branch gen (Some args) w) =
    Inr (decision_result (js_lit ''Gemini'') msg_api_error args (spec_decide backend args))"
proof (cases "\<exists>c cs. condition args = Some c \<and> js_trim c \<noteq> [] \<and> choices args = Some cs \<and> cs \<noteq> []")
  case True
  then obtain c cs where v: "condition args = Some c" "js_trim c \<noteq> []" "choices args = Some cs" "cs \<noteq> []"
    by blast
  have "answer_of (gen (branch_request args c cs)) =
      Some (backend (gemini_prompt c cs (else_val args)) (model args) (apiKey args))"
    using assms(2) by (rule implements_backend_at)
  from gb_resume_spec [OF assms(1) this] v show ?thesis
    by (simp add: gemini_branch_Some spec_decide_def split: backend_answer.splits)
next
  case False
  then consider "condition args = None" | c where "condition args = Some c" "js_trim c = []"
    | c where "condition args = Some c" "js_trim c \<noteq> []" "choices args = None"
    | c where "condition args = Some c" "js_trim c \<noteq> []" "choices args = Some []"
    by (cases "condition args"; cases "choices args") auto
  then show ?thesis
    by cases (simp_all add: gemini_branch_Some spec_decide_def resolved_def fail_def spec_failure_def
        msg_bad_condition_def
        msg_bad_choices_def)
qed

theorem gemini_branch_refines_spec_witness:
  "fst (gemini_branch (\<lambda>_. Gen_ok (Some (js_lit ''No''))) (Some demo_args) demo_world) =
    Inr (decision_result (js_lit ''Gemini'') msg_api_error demo_args
      (spec_decide (\<lambda>_ _ _. Answered (js_lit ''No'')) demo_args))"
  by (rule gemini_branch_refines_spec) (simp_all add: demo_args_def implements_backend_def)

text \<open>The exclusions are needed. With the fallback \<open>""\<close> and the answer \<open>""\<close> the design
  selects the fallback, while the code, whose \<open>args.else &&\<close> reads \<open>""\<close> as no
  fallback, reports an invalid response.\<close>

lemma empty_fallback_refutes_spec:
  "implements_backend (\<lambda>_. Gen_ok (Some [])) (\<lambda>_ _ _. Answered []) \<and>
   spec_decide (\<lambda>_ _ _. Answered []) (demo_args\<lparr>else_val := Some []\<rparr>) = Fallback_match [] \<and>
   \<not> response (projr (fst (gemini_branch (\<lambda>_. Gen_ok (Some [])) (Some (demo_args\<lparr>else_val := Some []\<rparr>))
       demo_world)))"
  by (simp add: implements_backend_def spec_decide_def demo_eval)

text \<open>A rejection value that \<open>String()\<close> cannot convert is implemented by no abstract
  backend, and the code's promise rejects on it.\<close>

lemma unprintable_no_backend:
  "\<not> implements_backend (\<lambda>_. Gen_error JS_unprintable) backend"
  by (simp add: implements_backend_def)

text \<open>With the design's backend-error prefix \<open>"Backend error: "\<close> the refinement fails:
  the code reports \<open>"Gemini API error: "\<close>.\<close>

lemma backend_error_prefix_differs:
  "implements_backend (\<lambda>_. Gen_error (JS_thrown (js_lit ''quota''))) (\<lambda>_ _ _. Backend_failed (js_lit ''quota'')) \<and>
   fst (gemini_branch (\<lambda>_. Gen_error (JS_thrown (js_lit ''quota''))) (Some demo_args) demo_world) \<noteq>
   Inr (decision_result (js_lit ''Gemini'') (js_lit ''Backend error: '') demo_args
     (spec_decide (\<lambda>_ _ _. Backend_failed (js_lit ''quota'')) demo_args))"
  by (simp add: implements_backend_def spec_decide_def spec_failure_def msg_api_error_def demo_eval)

end
