(* ===== verification/Spec2Isabelle.thy ===== *)
theory Spec2Isabelle
  imports Call_Machine Decision_Spec
begin

text \<open>
  \<^bold>\<open>GeminiBranch in Isabelle/HOL.\<close>
  The repository is one TypeScript module, \<open>src/src/index.ts\<close>, exporting
  \<open>GeminiBranch(args)\<close>: an \<open>async\<close> function that asks a generative-language backend
  (the \<open>@google/genai\<close> client) to pick exactly one of \<open>args.choices\<close> matching
  \<open>args.condition\<close>, and always answers with a \<open>GeminiBranchResult\<close>
  \<open>{response, result, message}\<close>. Its parts run in sequence within one call: the input
  validator (the \<open>typeof\<close>/\<open>trim\<close> check of the condition and the \<open>Array.isArray\<close>/length
  check of the choices), the prompt composer (a template literal with
  \<open>JSON.stringify\<close> of the condition and of the choices and the fallback inserted
  verbatim), the backend call (\<open>await ai.models.generateContent\<close>), the response
  reconciler (trim, fallback match, membership in the choices), and the error normaliser
  (\<open>fail\<close> and the \<open>catch\<close> block). Calls share no state; their only effects are the
  backend requests and the \<open>console.error\<close> lines written when \<open>consoleErrors\<close> is set.

  \<^bold>\<open>Theories.\<close>
  \<^item> \<open>JS_Prelude\<close>: JavaScript strings as lists of UTF-16 code units (\<open>16 word list\<close>),
    \<open>String.prototype.trim\<close> (\<open>js_trim\<close>, with the ECMAScript white-space and
    line-terminator set), \<open>??\<close> (\<open>js_coalesce\<close>), the truthiness of an optional
    string (\<open>js_truthy_str\<close>), \<open>Array.prototype.includes\<close> (\<open>js_includes\<close>), and the
    lemmas on trim (its result starts and ends with non-white space, it is idempotent, it
    strips any white-space padding around such a string).
  \<^item> \<open>Json_Stringify\<close>: \<open>JSON.stringify\<close> of a string (ECMAScript QuoteJSONString,
    with the escapes of control characters and lone surrogates written on \<open>16 word\<close>
    code units) and of an array of strings; decoders following \<open>JSON.parse\<close>'s string
    and array grammar that return the unconsumed rest; and the round trips
    \<open>json_parse_string (json_quote s @ r) = Some (s, r)\<close> and its array analogue,
    including the four-hex-digit escape of any 16-bit code unit.
  \<^item> \<open>Prompt\<close>: the template literal of lines 63--79 (\<open>gemini_prompt\<close>) and
    \<open>parse_prompt_payload\<close>, which reads the JSON payload back from a prompt: the
    condition and the choices are embedded unambiguously, whatever the fallback text.
  \<^item> \<open>Gemini_Branch\<close>: the records \<open>branch_options\<close> (\<open>GeminiBranchOptions\<close>),
    \<open>branch_result\<close> (\<open>GeminiBranchResult\<close>), \<open>gen_request\<close> and \<open>world\<close> (the
    console and the requests sent), \<open>fail\<close>, and \<open>GeminiBranch\<close> split at its
    \<open>await\<close>: \<open>gb_start\<close> (lines 48--80, the validations and the request),
    \<open>gb_reconcile\<close> (lines 84--103) and \<open>gb_resume\<close> (lines 82--108, with the
    \<open>catch\<close>), composed by \<open>gemini_branch\<close> for a backend given as a function from
    requests to outcomes (\<open>gen_outcome\<close>: fulfilled with a possibly undefined text, or
    rejected with a thrown value). A thrown value is described by what \<open>String(e)\<close>
    does with it (\<open>js_exn\<close>), since the \<open>catch\<close> block converts it and that conversion
    can throw. The settled promise is a sum: \<open>Inl\<close> a rejection, \<open>Inr\<close> a result.
    A caller that passes \<open>null\<close> as \<open>args\<close> is the argument \<open>None\<close>.
  \<^item> \<open>Call_Machine\<close>: the same call as an \<open>inductive\<close> step relation \<open>call_step\<close>
    over its phases (\<open>Call_start\<close>, \<open>Call_suspended\<close> at the \<open>await\<close>,
    \<open>Call_settled\<close>), one rule per stretch of code between suspension points, the
    backend's settlement being any outcome the environment chooses; and \<open>sys_step\<close>,
    the event loop interleaving any number of calls over the shared world. The invariant
    \<open>call_arg\<close> (a call keeps its argument and waits on the request that argument sends)
    holds in every reachable state, and \<open>sys_reachable_account\<close> lifts a per-step balance
    of one call to every interleaving; \<open>phase_log\<close> and \<open>phase_request\<close> are what a
    call has written to the console and sent to the backend.
  \<^item> \<open>Decision_Spec\<close>: the design document's contract, written apart from the code:
    \<open>spec_decide\<close>, the decision state machine of section 4 over an abstract backend
    from (prompt, model, credential) to an answer or a failure, and
    \<open>decision_result\<close>, the \<open>DecisionResult\<close> of each of its five outcomes;
    \<open>answer_of\<close> and \<open>implements_backend\<close> relate the code's backend to the abstract one.

  \<^bold>\<open>What is proved.\<close>
  For one call (\<open>Gemini_Branch\<close>): the membership invariant (a successful result is a
  choice or the non-empty fallback, C1), the failure shape (\<open>result = else ?? ""\<close>,
  non-empty message, C2), the exact set of rejections (a \<open>null\<close> \<open>args\<close> or an
  unconvertible rejection value, C3), fast failure without any backend request (C4, C5),
  exactly one request per valid call with the rendered prompt (C6), each outcome of the
  reconciler in its priority order (padded match C7, fallback first C8, invalid response
  C9, backend error C10), the empty fallback that is never matched (C11), the logging side
  effect and its independence from the answer (C12, C13), and that a choice with white space
  at either end can never be selected (C17). For the prompt: its JSON payload reads back as
  the condition and the choices (C14). For concurrent calls (\<open>Call_Machine\<close>): under
  every interleaving the console holds, as a multiset, exactly the lines each call logs
  (C15), and the backend has received exactly one request from each started call with valid
  input and none from the others (C18). Against the design (\<open>Decision_Spec\<close>):
  \<open>gemini_branch\<close> refines the decision contract for every request whose fallback is
  not \<open>""\<close> and every backend whose rejections \<open>String()\<close> can print, with the
  code's prefix \<open>"Gemini API error: "\<close> in place of the design's \<open>"Backend error: "\<close>
  (C16); closed lemmas beside it show each exclusion and the prefix are needed. Every
  property with hypotheses has a witness on a concrete call evaluated by the simplifier.

  \<^bold>\<open>Not modelled.\<close>
  The \<open>@google/genai\<close> client itself (model choice, transport, retries): the model takes
  its answer to the request as an input, any answer. The final \<open>return fail("Unknown
  error", args)\<close> (lines 111--112) is unreachable, since every path of the \<open>try\<close> block
  returns and the \<open>catch\<close> block returns or throws. Numbers, objects and other values
  inside the choices array are outside the TypeScript type \<open>string[]\<close> and are not
  modelled; a non-string condition and a non-array choices value are. The constructor
  \<open>new GoogleGenAI({apiKey})\<close> (line 60) is not modelled apart from
  \<open>generateContent\<close>: a throw of either is the backend outcome \<open>Gen_error\<close>, and the
  model records the request in both cases, since the world's \<open>requests\<close> is the log of
  calls that got past validation rather than of bytes on the wire.

  \<^bold>\<open>Plan for the next sittings.\<close>
  The order of the console lines of one call relative to its request (the console property
  is a multiset), and a separate outcome for a throw of the client's constructor.
\<close>

end
